theory Spec2Isabelle
  imports Complex_Main
begin

section \<open>The optimality-error convergence check of Ipopt\<close>

text \<open>
  A shallow embedding of \<^verbatim>\<open>OptimalityErrorConvergenceCheck\<close>
  (\<^verbatim>\<open>IpOptErrorConvCheck.cpp\<close>): the registration of its options, its
  initialisation, \<^verbatim>\<open>CheckConvergence\<close> and \<^verbatim>\<open>CurrentIsAcceptable\<close>.

  \<^item> \<^verbatim>\<open>Number\<close> (a C++ double) is modelled by \<open>real\<close>: the code only compares these
    values, except in two places. The elapsed CPU time is a difference of two doubles,
    rounded to the nearest double as the machine does (\<open>double_minus\<close>). The relative
    change of the objective is computed here in exact arithmetic. Decimal constants of the
    source (\<^verbatim>\<open>1e300\<close>, \<^verbatim>\<open>-1e50\<close>, \<^verbatim>\<open>999999.\<close>) stand for their decimal values.
    Infinities and NaN are outside the model.
  \<^item> \<^verbatim>\<open>Index\<close> (a C++ int of 32 bits) is modelled by \<open>int\<close>: the code compares
    indices and increments one counter, with the wrap-around at the largest value written
    out (\<open>increment\<close>).
  \<^item> A \<^verbatim>\<open>SmartPtr\<close> that may be null is an \<open>option\<close>; dereferencing a null pointer is
    the error \<open>NullPointer\<close>.
  \<^item> A vector is the list of its components.
  \<^item> Journal output (\<^verbatim>\<open>Jnlst().Printf\<close>, \<^verbatim>\<open>DBG_PRINT\<close>) has no effect on the
    result and is left out.
\<close>

type_synonym Number = real
type_synonym Index = int
type_synonym Vector = "Number list"

datatype error = NullPointer | OptionInvalid

definition bind_err :: "'e + 'a \<Rightarrow> ('a \<Rightarrow> 'e + 'b) \<Rightarrow> 'e + 'b" where
  "bind_err m f = (case m of Inl e \<Rightarrow> Inl e | Inr v \<Rightarrow> f v)"

text \<open>\<^verbatim>\<open>IsValid(p)\<close> of a smart pointer, and \<^verbatim>\<open>p->\<close>.\<close>

definition IsValid :: "'a option \<Rightarrow> bool" where
  "IsValid p = (case p of None \<Rightarrow> False | Some _ \<Rightarrow> True)"

definition deref :: "'a option \<Rightarrow> error + 'a" where
  "deref p = (case p of None \<Rightarrow> Inl NullPointer | Some v \<Rightarrow> Inr v)"

text \<open>
  Modelled from the spec: \<^verbatim>\<open>Dim\<close> of the vector class (not in the sources), the
  number of components of a vector.
\<close>

definition Dim :: "Vector \<Rightarrow> Index" where
  "Dim v = int (length v)"

text \<open>
  Modelled from the spec: \<^verbatim>\<open>Amax\<close> of the vector class (not in the sources), the
  max-norm of a vector: the largest magnitude of a component, zero for the empty vector.
\<close>

definition Amax :: "Vector \<Rightarrow> Number" where
  "Amax v = fold (\<lambda>a m. max \<bar>a\<bar> m) v 0"

text \<open>
  Modelled from the spec: the enumeration \<^verbatim>\<open>ConvergenceStatus\<close> is declared outside the
  sources; these are the statuses the specification lists.
\<close>

datatype ConvergenceStatus =
    CONTINUE
  | CONVERGED
  | CONVERGED_TO_ACCEPTABLE_POINT
  | MAXITER_EXCEEDED
  | CPUTIME_EXCEEDED
  | DIVERGING
  | RESTORATION_FAILURE
  | USER_STOP

datatype AlgorithmMode = RegularMode | RestorationPhaseMode

subsection \<open>State\<close>

text \<open>The data members of the checker (the trailing underscore of each name dropped).\<close>

record OptimalityErrorConvergenceCheck =
  max_iterations :: Index
  max_cpu_time :: Number
  dual_inf_tol :: Number
  constr_viol_tol :: Number
  compl_inf_tol :: Number
  acceptable_iter :: Index
  acceptable_tol :: Number
  acceptable_dual_inf_tol :: Number
  acceptable_constr_viol_tol :: Number
  acceptable_compl_inf_tol :: Number
  acceptable_obj_change_tol :: Number
  diverging_iterates_tol :: Number
  mu_target :: Number
  acceptable_counter :: Index
  curr_obj_val :: Number
  last_obj_val :: Number
  last_obj_val_iter :: Index

text \<open>
  Everything a call of \<^verbatim>\<open>CheckConvergence\<close> can change: the checker's members, the info
  string of \<^verbatim>\<open>IpData()\<close> (\<^verbatim>\<open>Append_info_string\<close>), and the state \<open>'u\<close> that the user's
  intermediate callback owns.
\<close>

record 'u World = OptimalityErrorConvergenceCheck +
  info_string :: string
  user_state :: 'u

text \<open>The arguments of \<^verbatim>\<open>IntermediateCallBack\<close>, in the order of the call.\<close>

record CallBackArgs =
  cb_mode :: AlgorithmMode
  cb_iter :: Index
  cb_obj_value :: Number
  cb_inf_pr :: Number
  cb_inf_du :: Number
  cb_mu :: Number
  cb_d_norm :: Number
  cb_regularization_size :: Number
  cb_alpha_du :: Number
  cb_alpha_pr :: Number
  cb_ls_trials :: Index

text \<open>The search direction \<^verbatim>\<open>IpData().delta()\<close>: its components may be absent.\<close>

record IteratesVector =
  delta_x :: "Vector option"
  delta_s :: "Vector option"

text \<open>
  What a call reads from its collaborators \<^verbatim>\<open>IpData()\<close>, \<^verbatim>\<open>IpCq()\<close>, \<^verbatim>\<open>IpNLP()\<close> and
  the clock. The complementarity is a function of the target barrier value it is measured
  against. The callback returns \<open>True\<close> to continue, together with the user's new state.
\<close>

record 'u IpoptEnv =
  iter_count :: Index
  curr_primal_infeasibility :: Number
  curr_dual_infeasibility :: Number
  curr_mu :: Number
  delta :: "IteratesVector option"
  info_alpha_primal :: Number
  info_alpha_dual :: Number
  info_regu_x :: Number
  unscaled_curr_f :: Number
  info_ls_count :: Index
  IntermediateCallBack :: "CallBackArgs \<Rightarrow> 'u \<Rightarrow> bool \<times> 'u"
  curr_nlp_error :: Number
  unscaled_curr_dual_infeasibility :: Number
  unscaled_curr_nlp_constraint_violation :: Number
  unscaled_curr_complementarity :: "Number \<Rightarrow> Number"
  curr_x :: Vector
  curr_y_c :: Vector
  tol :: Number
  curr_f :: Number
  CpuTime :: Number
  cpu_time_start :: Number

subsection \<open>Options\<close>

text \<open>
  The options registry and the options list are not part of the sources; only the calls
  that register and read the checker's options are. What follows models the registry from
  the specification: options have a range and a default, and a value out of range is
  rejected before the solve starts.
\<close>

text \<open>
  Modelled from the spec: a registered option of the registry (not in the sources), with
  what the registering call gives: the name, the lower bound (for a number, whether it is
  strict) and the default. No call of this checker gives an upper bound.
\<close>

datatype RegisteredOption =
    LowerBoundedIntegerOption string Index Index
  | LowerBoundedNumberOption string Number bool Number

text \<open>Modelled from the spec: the value of an option in the options list (not in the sources).\<close>

datatype OptionValue = IntegerValue Index | NumberValue Number

type_synonym RegisteredOptions = "RegisteredOption list"
type_synonym OptionsList = "(string \<times> OptionValue) list"

text \<open>Modelled from the spec: the name of a registered option.\<close>

fun option_name :: "RegisteredOption \<Rightarrow> string" where
  "option_name (LowerBoundedIntegerOption n lo d) = n"
| "option_name (LowerBoundedNumberOption n lo strict d) = n"

text \<open>Modelled from the spec: the default of a registered option.\<close>

fun default_value :: "RegisteredOption \<Rightarrow> OptionValue" where
  "default_value (LowerBoundedIntegerOption n lo d) = IntegerValue d"
| "default_value (LowerBoundedNumberOption n lo strict d) = NumberValue d"

text \<open>
  Modelled from the spec: a value is a valid setting of an option when it is of the
  option's kind and within its range, which is the lower bound alone.
\<close>

fun IsValidSetting :: "RegisteredOption \<Rightarrow> OptionValue \<Rightarrow> bool" where
  "IsValidSetting (LowerBoundedIntegerOption n lo d) (IntegerValue v) = (lo \<le> v)"
| "IsValidSetting (LowerBoundedNumberOption n lo strict d) (NumberValue v) =
     (if strict then lo < v else lo \<le> v)"
| "IsValidSetting (LowerBoundedIntegerOption n lo d) (NumberValue v) = False"
| "IsValidSetting (LowerBoundedNumberOption n lo strict d) (IntegerValue v) = False"

text \<open>
  Modelled from the spec: \<^verbatim>\<open>AddLowerBoundedIntegerOption\<close> of the registry (not in the
  sources) registers an integer option with its lower bound and default.
\<close>

definition AddLowerBoundedIntegerOption ::
  "string \<Rightarrow> Index \<Rightarrow> Index \<Rightarrow> RegisteredOptions \<Rightarrow> RegisteredOptions" where
  "AddLowerBoundedIntegerOption n lo d roptions = roptions @ [LowerBoundedIntegerOption n lo d]"

text \<open>
  Modelled from the spec: \<^verbatim>\<open>AddLowerBoundedNumberOption\<close> of the registry (not in the
  sources) registers a number option with its lower bound, strict or not, and default.
\<close>

definition AddLowerBoundedNumberOption ::
  "string \<Rightarrow> Number \<Rightarrow> bool \<Rightarrow> Number \<Rightarrow> RegisteredOptions \<Rightarrow> RegisteredOptions" where
  "AddLowerBoundedNumberOption n lo strict d roptions =
     roptions @ [LowerBoundedNumberOption n lo strict d]"

text \<open>Modelled from the spec: the lookup of a registered option by its name.\<close>

definition GetOption :: "RegisteredOptions \<Rightarrow> string \<Rightarrow> RegisteredOption option" where
  "GetOption roptions n = find (\<lambda>opt. option_name opt = n) roptions"

text \<open>
  Modelled from the spec: setting a number option in the options list (not in the
  sources). An unknown option and a value out of range are rejected.
\<close>

definition SetNumericValue ::
  "RegisteredOptions \<Rightarrow> string \<Rightarrow> Number \<Rightarrow> OptionsList \<Rightarrow> error + OptionsList" where
  "SetNumericValue roptions n v options =
     (case GetOption roptions n of
        None \<Rightarrow> Inl OptionInvalid
      | Some opt \<Rightarrow>
          if IsValidSetting opt (NumberValue v) then Inr ((n, NumberValue v) # options)
          else Inl OptionInvalid)"

text \<open>
  Modelled from the spec: reading an option from the options list (not in the sources)
  gives the value set, or else the default of the registered option.
\<close>

definition GetValue :: "RegisteredOptions \<Rightarrow> OptionsList \<Rightarrow> string \<Rightarrow> OptionValue option" where
  "GetValue roptions options n =
     (case map_of options n of
        Some v \<Rightarrow> Some v
      | None \<Rightarrow> map_option default_value (GetOption roptions n))"

text \<open>
  Modelled from the spec: \<^verbatim>\<open>GetNumericValue\<close> and \<^verbatim>\<open>GetIntegerValue\<close> of the options
  list (not in the sources), as the checker uses them: on registered options of the right
  kind. On anything else they give zero here.
\<close>

definition GetNumericValue :: "RegisteredOptions \<Rightarrow> OptionsList \<Rightarrow> string \<Rightarrow> Number" where
  "GetNumericValue roptions options n =
     (case GetValue roptions options n of Some (NumberValue v) \<Rightarrow> v | _ \<Rightarrow> 0)"

definition GetIntegerValue :: "RegisteredOptions \<Rightarrow> OptionsList \<Rightarrow> string \<Rightarrow> Index" where
  "GetIntegerValue roptions options n =
     (case GetValue roptions options n of Some (IntegerValue v) \<Rightarrow> v | _ \<Rightarrow> 0)"

text \<open>
  \<^verbatim>\<open>RegisterOptions\<close>: the thirteen registrations of the source, in its order, each with
  the bound, the strictness and the default the source gives (descriptions left out).
\<close>

definition RegisterOptions :: "RegisteredOptions \<Rightarrow> RegisteredOptions" where
  "RegisterOptions roptions =
     fold (\<lambda>add registered. add registered)
       [AddLowerBoundedIntegerOption ''max_iter'' 0 3000,
        AddLowerBoundedNumberOption ''max_cpu_time'' 0 True (10 ^ 6),
        AddLowerBoundedNumberOption ''dual_inf_tol'' 0 True 1,
        AddLowerBoundedNumberOption ''constr_viol_tol'' 0 True (1 / 10 ^ 4),
        AddLowerBoundedNumberOption ''compl_inf_tol'' 0 True (1 / 10 ^ 4),
        AddLowerBoundedNumberOption ''acceptable_tol'' 0 True (1 / 10 ^ 6),
        AddLowerBoundedIntegerOption ''acceptable_iter'' 0 15,
        AddLowerBoundedNumberOption ''acceptable_dual_inf_tol'' 0 True (10 ^ 10),
        AddLowerBoundedNumberOption ''acceptable_constr_viol_tol'' 0 True (1 / 10 ^ 2),
        AddLowerBoundedNumberOption ''acceptable_compl_inf_tol'' 0 True (1 / 10 ^ 2),
        AddLowerBoundedNumberOption ''acceptable_obj_change_tol'' 0 False (10 ^ 20),
        AddLowerBoundedNumberOption ''diverging_iterates_tol'' 0 True (10 ^ 20),
        AddLowerBoundedNumberOption ''mu_target'' 0 False 0]
       roptions"

text \<open>
  \<^verbatim>\<open>InitializeImpl\<close>, given the two readers of the options list (the prefix is part of
  them). It assigns every member but \<^verbatim>\<open>last_obj_val_\<close>, which keeps whatever it held,
  and returns \<^verbatim>\<open>true\<close>.
\<close>

definition InitializeImpl ::
  "(string \<Rightarrow> Index) \<Rightarrow> (string \<Rightarrow> Number) \<Rightarrow>
   'a OptimalityErrorConvergenceCheck_scheme \<Rightarrow> bool \<times> 'a OptimalityErrorConvergenceCheck_scheme"
  where
  "InitializeImpl getInteger getNumeric st =
     (True,
      st\<lparr>max_iterations := getInteger ''max_iter'',
         max_cpu_time := getNumeric ''max_cpu_time'',
         dual_inf_tol := getNumeric ''dual_inf_tol'',
         constr_viol_tol := getNumeric ''constr_viol_tol'',
         compl_inf_tol := getNumeric ''compl_inf_tol'',
         acceptable_iter := getInteger ''acceptable_iter'',
         acceptable_tol := getNumeric ''acceptable_tol'',
         acceptable_dual_inf_tol := getNumeric ''acceptable_dual_inf_tol'',
         acceptable_constr_viol_tol := getNumeric ''acceptable_constr_viol_tol'',
         acceptable_compl_inf_tol := getNumeric ''acceptable_compl_inf_tol'',
         acceptable_obj_change_tol := getNumeric ''acceptable_obj_change_tol'',
         diverging_iterates_tol := getNumeric ''diverging_iterates_tol'',
         mu_target := getNumeric ''mu_target'',
         acceptable_counter := 0,
         curr_obj_val := - (10 ^ 50),
         last_obj_val_iter := - 1\<rparr>)"

subsection \<open>The acceptable test\<close>

text \<open>
  The literal \<^verbatim>\<open>1e300\<close> that overwrites the tolerances on dual infeasibility and
  complementarity when the problem is square.
\<close>

definition relaxed_tol :: Number where
  "relaxed_tol = 10 ^ 300"

text \<open>The problem is square: as many variables as equality constraints.\<close>

definition square_problem :: "'u IpoptEnv \<Rightarrow> bool" where
  "square_problem env = (Dim (curr_x env) = Dim (curr_y_c env))"

text \<open>
  The relative change of the objective that the acceptable test compares, from the current
  and the last recorded objective value.
\<close>

definition obj_change :: "Number \<Rightarrow> Number \<Rightarrow> Number" where
  "obj_change curr_val last_val = \<bar>curr_val - last_val\<bar> / max 1 \<bar>curr_val\<bar>"

text \<open>
  \<^verbatim>\<open>CurrentIsAcceptable\<close>: it records the objective when the iteration index is new,
  overwrites two acceptable tolerances when the problem is square, and compares.
\<close>

definition CurrentIsAcceptable ::
  "'u IpoptEnv \<Rightarrow> 'a OptimalityErrorConvergenceCheck_scheme \<Rightarrow>
   bool \<times> 'a OptimalityErrorConvergenceCheck_scheme" where
  "CurrentIsAcceptable env st =
     (let overall_error = curr_nlp_error env;
          dual_inf = unscaled_curr_dual_infeasibility env;
          constr_viol = unscaled_curr_nlp_constraint_violation env;
          compl_inf = unscaled_curr_complementarity env (mu_target st);
          st1 = (if iter_count env \<noteq> last_obj_val_iter st
                 then st\<lparr>last_obj_val := curr_obj_val st,
                         curr_obj_val := curr_f env,
                         last_obj_val_iter := iter_count env\<rparr>
                 else st);
          st2 = (if square_problem env
                 then st1\<lparr>acceptable_dual_inf_tol := relaxed_tol,
                          acceptable_compl_inf_tol := relaxed_tol\<rparr>
                 else st1)
      in (overall_error \<le> acceptable_tol st2 \<and> dual_inf \<le> acceptable_dual_inf_tol st2
            \<and> constr_viol \<le> acceptable_constr_viol_tol st2
            \<and> compl_inf \<le> acceptable_compl_inf_tol st2
            \<and> obj_change (curr_obj_val st2) (last_obj_val st2) \<le> acceptable_obj_change_tol st2,
          st2))"

subsection \<open>The convergence check\<close>

text \<open>
  The step norm handed to the callback (lines 181 to 191). The conjunction of the source
  is evaluated from the left and stops at the first invalid pointer.
\<close>

definition step_norm :: "'u IpoptEnv \<Rightarrow> error + Number" where
  "step_norm env =
     (if IsValid (delta env) then
        bind_err (deref (delta env)) (\<lambda>d.
          if IsValid (delta_x d) then
            if IsValid (delta_s d) then
              bind_err (deref (delta_x d)) (\<lambda>dx.
              bind_err (deref (delta_s d)) (\<lambda>ds.
                Inr (max (Amax dx) (Amax ds))))
            else Inr 0
          else Inr 0)
      else Inr 0)"

text \<open>
  The body of \<^verbatim>\<open>if( call_intermediate_callback )\<close> up to the callback's answer: it gathers
  the arguments, calls the callback on the user's state, and gives \<^verbatim>\<open>request_stop\<close>
  with the user's new state.
\<close>

definition callback_args :: "'u IpoptEnv \<Rightarrow> Number \<Rightarrow> CallBackArgs" where
  "callback_args env dnrm =
     \<lparr>cb_mode = RegularMode,
      cb_iter = iter_count env,
      cb_obj_value = unscaled_curr_f env,
      cb_inf_pr = curr_primal_infeasibility env,
      cb_inf_du = curr_dual_infeasibility env,
      cb_mu = curr_mu env,
      cb_d_norm = dnrm,
      cb_regularization_size = info_regu_x env,
      cb_alpha_du = info_alpha_dual env,
      cb_alpha_pr = info_alpha_primal env,
      cb_ls_trials = info_ls_count env\<rparr>"

definition call_callback :: "'u IpoptEnv \<Rightarrow> 'u \<Rightarrow> error + (bool \<times> 'u)" where
  "call_callback env u =
     bind_err (step_norm env) (\<lambda>dnrm.
       let (continue, u') = IntermediateCallBack env (callback_args env dnrm) u
       in Inr (\<not> continue, u'))"

text \<open>Lines 211 to 217: a square problem overwrites two primary tolerances.\<close>

definition relax_primary ::
  "'u IpoptEnv \<Rightarrow> 'a OptimalityErrorConvergenceCheck_scheme \<Rightarrow>
   'a OptimalityErrorConvergenceCheck_scheme" where
  "relax_primary env st =
     (if square_problem env
      then st\<lparr>dual_inf_tol := relaxed_tol, compl_inf_tol := relaxed_tol\<rparr>
      else st)"

text \<open>The condition of lines 232 and 233, on the tolerances the state holds.\<close>

definition primary_test :: "'u IpoptEnv \<Rightarrow> 'a OptimalityErrorConvergenceCheck_scheme \<Rightarrow> bool" where
  "primary_test env st =
     (let overall_error = curr_nlp_error env;
          dual_inf = unscaled_curr_dual_infeasibility env;
          constr_viol = unscaled_curr_nlp_constraint_violation env;
          compl_inf = unscaled_curr_complementarity env (mu_target st)
      in overall_error \<le> tol env \<and> dual_inf \<le> dual_inf_tol st
           \<and> constr_viol \<le> constr_viol_tol st \<and> compl_inf \<le> compl_inf_tol st)"

text \<open>
  \<^verbatim>\<open>i++\<close> on an \<^verbatim>\<open>Index\<close>, a signed integer of 32 bits: at the largest value
  \<open>2147483647\<close> the increment overflows and the machine wraps to the smallest.
\<close>

definition increment :: "Index \<Rightarrow> Index" where
  "increment i = (if i = 2147483647 then - 2147483648 else i + 1)"

text \<open>
  The difference of two doubles is the exact difference rounded to the nearest double,
  ties to the even significand. \<open>double_round\<close> rounds a real to 53 significant bits
  (less for a subnormal, whose exponent stays at \<open>-1022\<close>); results beyond the largest
  double are outside the model.
\<close>

definition round_to_even :: "real \<Rightarrow> int" where
  "round_to_even q =
     (let n = \<lfloor>q\<rfloor>; d = q - of_int n
      in if d < 1 / 2 then n else if 1 / 2 < d then n + 1 else if even n then n else n + 1)"

definition double_round :: "real \<Rightarrow> Number" where
  "double_round x =
     (if x = 0 then 0
      else
        let e = max \<lfloor>log 2 \<bar>x\<bar>\<rfloor> (- 1022);
            ulp = 2 powr (of_int (e - 52))
        in of_int (round_to_even (x / ulp)) * ulp)"

definition double_minus :: "Number \<Rightarrow> Number \<Rightarrow> Number" where
  "double_minus a b = double_round (a - b)"

text \<open>Lines 252 to 268, reached from both branches of the acceptable test.\<close>

definition limit_checks :: "'u IpoptEnv \<Rightarrow> 'u World \<Rightarrow> ConvergenceStatus" where
  "limit_checks env w =
     (if Amax (curr_x env) > diverging_iterates_tol w then DIVERGING
      else if iter_count env \<ge> max_iterations w then MAXITER_EXCEEDED
      else
        let curr_cpu_time = CpuTime env
        in if max_cpu_time w < 999999
              \<and> double_minus curr_cpu_time (cpu_time_start env) > max_cpu_time w
           then CPUTIME_EXCEEDED
           else CONTINUE)"

text \<open>Lines 206 to 268: \<^verbatim>\<open>CheckConvergence\<close> after the callback.\<close>

definition check_quantities :: "'u IpoptEnv \<Rightarrow> 'u World \<Rightarrow> ConvergenceStatus \<times> 'u World" where
  "check_quantities env w =
     (let w1 = relax_primary env w
      in if primary_test env w1 then (CONVERGED, w1)
         else
           let (acceptable, w2) =
                 (if acceptable_iter w1 > 0 then CurrentIsAcceptable env w1 else (False, w1))
           in if acceptable then
                let w3 = w2\<lparr>info_string := info_string w2 @ ''A''\<rparr>;
                    w4 = w3\<lparr>acceptable_counter := increment (acceptable_counter w3)\<rparr>
                in if acceptable_counter w4 \<ge> acceptable_iter w4
                   then (CONVERGED_TO_ACCEPTABLE_POINT, w4)
                   else (limit_checks env w4, w4)
              else
                let w3 = w2\<lparr>acceptable_counter := 0\<rparr>
                in (limit_checks env w3, w3))"

definition CheckConvergence ::
  "bool \<Rightarrow> 'u IpoptEnv \<Rightarrow> 'u World \<Rightarrow> error + (ConvergenceStatus \<times> 'u World)" where
  "CheckConvergence call_intermediate_callback env w =
     (if call_intermediate_callback then
        bind_err (call_callback env (user_state w)) (\<lambda>(request_stop, u').
          let w' = w\<lparr>user_state := u'\<rparr>
          in if request_stop then Inr (USER_STOP, w')
             else Inr (check_quantities env w'))
      else Inr (check_quantities env w))"

subsection \<open>Sequences of calls\<close>

text \<open>
  The driver calls \<^verbatim>\<open>CheckConvergence\<close> once per iteration, each call on the state the
  previous one left. A sequence of calls is the list of their arguments (the callback flag
  and what the call reads); it gives the list of statuses returned.
\<close>

fun CheckConvergence_calls ::
  "(bool \<times> 'u IpoptEnv) list \<Rightarrow> 'u World \<Rightarrow> error + (ConvergenceStatus list \<times> 'u World)" where
  "CheckConvergence_calls [] w = Inr ([], w)"
| "CheckConvergence_calls ((b, env) # cs) w =
     (case CheckConvergence b env w of
        Inl e \<Rightarrow> Inl e
      | Inr (s, w') \<Rightarrow>
          (case CheckConvergence_calls cs w' of
             Inl e \<Rightarrow> Inl e
           | Inr (ss, w'') \<Rightarrow> Inr (s # ss, w'')))"

subsection \<open>Vocabulary of the properties\<close>

text \<open>The status a call returns.\<close>

definition returns :: "error + (ConvergenceStatus \<times> 'w) \<Rightarrow> ConvergenceStatus \<Rightarrow> bool" where
  "returns r s = (case r of Inr (s', w') \<Rightarrow> s' = s | Inl e \<Rightarrow> False)"

text \<open>The callback is called and asks to stop.\<close>

definition user_requests_stop :: "bool \<Rightarrow> 'u IpoptEnv \<Rightarrow> 'u World \<Rightarrow> bool" where
  "user_requests_stop call_intermediate_callback env w =
     (call_intermediate_callback \<and>
      (case call_callback env (user_state w) of
         Inr (request_stop, u') \<Rightarrow> request_stop
       | Inl e \<Rightarrow> False))"

text \<open>The state after the callback, if it is called: only the user's state has changed.\<close>

definition after_callback :: "bool \<Rightarrow> 'u IpoptEnv \<Rightarrow> 'u World \<Rightarrow> 'u World" where
  "after_callback call_intermediate_callback env w =
     (if call_intermediate_callback then
        (case call_callback env (user_state w) of
           Inr (request_stop, u') \<Rightarrow> w\<lparr>user_state := u'\<rparr>
         | Inl e \<Rightarrow> w)
      else w)"

text \<open>
  The acceptable test is evaluated by a call (no stop is requested, the primary test
  fails, the heuristic is enabled) and passes, or fails.
\<close>

definition acceptable_test_passes :: "bool \<Rightarrow> 'u IpoptEnv \<Rightarrow> 'u World \<Rightarrow> bool" where
  "acceptable_test_passes b env w =
     (\<not> user_requests_stop b env w \<and> \<not> primary_test env (relax_primary env w)
      \<and> 0 < acceptable_iter w \<and> fst (CurrentIsAcceptable env (relax_primary env w)))"

definition acceptable_test_fails :: "bool \<Rightarrow> 'u IpoptEnv \<Rightarrow> 'u World \<Rightarrow> bool" where
  "acceptable_test_fails b env w =
     (\<not> user_requests_stop b env w \<and> \<not> primary_test env (relax_primary env w)
      \<and> 0 < acceptable_iter w \<and> \<not> fst (CurrentIsAcceptable env (relax_primary env w)))"

text \<open>The acceptable test passes on every call of a sequence.\<close>

fun passes_on_all :: "(bool \<times> 'u IpoptEnv) list \<Rightarrow> 'u World \<Rightarrow> bool" where
  "passes_on_all [] w = True"
| "passes_on_all ((b, env) # cs) w =
     (acceptable_test_passes b env w \<and>
      (case CheckConvergence b env w of
         Inl e \<Rightarrow> False
       | Inr (s, w') \<Rightarrow> passes_on_all cs w'))"

subsection \<open>Example inputs\<close>

text \<open>
  The checker as initialised from the default of every option (the member that
  initialisation leaves alone is zero), with an empty info string and a user without
  state.
\<close>

definition initial_world :: "unit World" where
  "initial_world =
     \<lparr>max_iterations = 3000, max_cpu_time = 10 ^ 6, dual_inf_tol = 1,
      constr_viol_tol = 1 / 10 ^ 4, compl_inf_tol = 1 / 10 ^ 4, acceptable_iter = 15,
      acceptable_tol = 1 / 10 ^ 6, acceptable_dual_inf_tol = 10 ^ 10,
      acceptable_constr_viol_tol = 1 / 10 ^ 2, acceptable_compl_inf_tol = 1 / 10 ^ 2,
      acceptable_obj_change_tol = 10 ^ 20, diverging_iterates_tol = 10 ^ 20, mu_target = 0,
      acceptable_counter = 0, curr_obj_val = - (10 ^ 50), last_obj_val = 0,
      last_obj_val_iter = - 1, info_string = [], user_state = ()\<rparr>"

text \<open>
  An iterate of a problem with two variables and one equality constraint, at which every
  error quantity is \<open>1e-9\<close> and the tolerance is \<open>1e-8\<close>; no direction has been computed,
  and the callback always continues.
\<close>

definition example_env :: "unit IpoptEnv" where
  "example_env =
     \<lparr>iter_count = 0, curr_primal_infeasibility = 0, curr_dual_infeasibility = 0,
      curr_mu = 1 / 10, delta = None, info_alpha_primal = 0, info_alpha_dual = 0,
      info_regu_x = 0, unscaled_curr_f = 5, info_ls_count = 0,
      IntermediateCallBack = (\<lambda>args u. (True, u)),
      curr_nlp_error = 1 / 10 ^ 9, unscaled_curr_dual_infeasibility = 1 / 10 ^ 9,
      unscaled_curr_nlp_constraint_violation = 1 / 10 ^ 9,
      unscaled_curr_complementarity = (\<lambda>mu. 1 / 10 ^ 9),
      curr_x = [1, 2], curr_y_c = [0], tol = 1 / 10 ^ 8, curr_f = 5,
      CpuTime = 10, cpu_time_start = 0\<rparr>"

text \<open>A callback that always asks to stop.\<close>

definition stopping_callback :: "CallBackArgs \<Rightarrow> unit \<Rightarrow> bool \<times> unit" where
  "stopping_callback args u = (False, u)"

text \<open>The example iterate with a callback that asks to stop.\<close>

definition stopping_env :: "unit IpoptEnv" where
  "stopping_env = example_env\<lparr>IntermediateCallBack := stopping_callback\<rparr>"

text \<open>The example iterate at the iteration limit.\<close>

definition maxiter_env :: "unit IpoptEnv" where
  "maxiter_env = example_env\<lparr>iter_count := 3000\<rparr>"

text \<open>The example iterate for a square problem: two variables, two equality constraints.\<close>

definition square_env :: "unit IpoptEnv" where
  "square_env = example_env\<lparr>curr_y_c := [0, 0]\<rparr>"

text \<open>
  An iterate far from convergence (overall error 1), two million seconds after the start
  of the solve.
\<close>

definition slow_env :: "unit IpoptEnv" where
  "slow_env = example_env\<lparr>curr_nlp_error := 1, CpuTime := 2 * 10 ^ 6\<rparr>"

text \<open>
  An iterate at iteration \<open>i\<close> whose overall error \<open>1e-7\<close> misses the tolerance \<open>1e-8\<close>
  and meets the acceptable tolerance \<open>1e-6\<close>, and fifteen calls at such iterates.
\<close>

definition acceptable_env :: "Index \<Rightarrow> unit IpoptEnv" where
  "acceptable_env i = example_env\<lparr>curr_nlp_error := 1 / 10 ^ 7, iter_count := i\<rparr>"

definition acceptable_calls :: "(bool \<times> unit IpoptEnv) list" where
  "acceptable_calls =
     map (\<lambda>i. (False, acceptable_env i)) [1, 2, 3, 4, 5, 6, 7, 8, 9, 10, 11, 12, 13, 14, 15]"

text \<open>The checker after a first check at iteration 0 has recorded the objective value 5.\<close>

definition running_world :: "unit World" where
  "running_world = initial_world\<lparr>last_obj_val := 5, curr_obj_val := 5, last_obj_val_iter := 0\<rparr>"

section \<open>Auxiliary facts\<close>

subsection \<open>What the two overwriting steps leave alone\<close>



lemma relax_primary_frame [simp]:
  "user_state (relax_primary env w) = user_state w"
  "info_string (relax_primary env w) = info_string w"
  "acceptable_iter (relax_primary env st) = acceptable_iter st"
  "acceptable_counter (relax_primary env st) = acceptable_counter st"
  "max_iterations (relax_primary env st) = max_iterations st"
  "max_cpu_time (relax_primary env st) = max_cpu_time st"
  "diverging_iterates_tol (relax_primary env st) = diverging_iterates_tol st"
  "mu_target (relax_primary env st) = mu_target st"
  "constr_viol_tol (relax_primary env st) = constr_viol_tol st"
  "acceptable_tol (relax_primary env st) = acceptable_tol st"
  "acceptable_dual_inf_tol (relax_primary env st) = acceptable_dual_inf_tol st"
  "acceptable_constr_viol_tol (relax_primary env st) = acceptable_constr_viol_tol st"
  "acceptable_compl_inf_tol (relax_primary env st) = acceptable_compl_inf_tol st"
  "acceptable_obj_change_tol (relax_primary env st) = acceptable_obj_change_tol st"
  "curr_obj_val (relax_primary env st) = curr_obj_val st"
  "last_obj_val (relax_primary env st) = last_obj_val st"
  "last_obj_val_iter (relax_primary env st) = last_obj_val_iter st"
  by (cases "square_problem env"; simp add: relax_primary_def)+

lemma relax_primary_tol [simp]:
  "dual_inf_tol (relax_primary env st) = (if square_problem env then relaxed_tol else dual_inf_tol st)"
  "compl_inf_tol (relax_primary env st) = (if square_problem env then relaxed_tol else compl_inf_tol st)"
  by (cases "square_problem env"; simp add: relax_primary_def)+

lemma primary_test_eq:
  "primary_test env st =
     (curr_nlp_error env \<le> tol env
      \<and> unscaled_curr_dual_infeasibility env \<le> dual_inf_tol st
      \<and> unscaled_curr_nlp_constraint_violation env \<le> constr_viol_tol st
      \<and> unscaled_curr_complementarity env (mu_target st) \<le> compl_inf_tol st)"
  by (simp add: primary_test_def)

text \<open>The acceptable test, with the tolerances and objective values it compares written out.\<close>

lemma CurrentIsAcceptable_fst:
  "fst (CurrentIsAcceptable env st) =
     (curr_nlp_error env \<le> acceptable_tol st
      \<and> unscaled_curr_dual_infeasibility env
          \<le> (if square_problem env then relaxed_tol else acceptable_dual_inf_tol st)
      \<and> unscaled_curr_nlp_constraint_violation env \<le> acceptable_constr_viol_tol st
      \<and> unscaled_curr_complementarity env (mu_target st)
          \<le> (if square_problem env then relaxed_tol else acceptable_compl_inf_tol st)
      \<and> obj_change (if iter_count env \<noteq> last_obj_val_iter st then curr_f env else curr_obj_val st)
            (if iter_count env \<noteq> last_obj_val_iter st then curr_obj_val st else last_obj_val st)
          \<le> acceptable_obj_change_tol st)"
  by (cases "square_problem env"; cases "iter_count env = last_obj_val_iter st";
      simp add: CurrentIsAcceptable_def)

lemma CurrentIsAcceptable_frame [simp]:
  "user_state (snd (CurrentIsAcceptable env w)) = user_state w"
  "info_string (snd (CurrentIsAcceptable env w)) = info_string w"
  "acceptable_iter (snd (CurrentIsAcceptable env st)) = acceptable_iter st"
  "acceptable_counter (snd (CurrentIsAcceptable env st)) = acceptable_counter st"
  "max_iterations (snd (CurrentIsAcceptable env st)) = max_iterations st"
  "max_cpu_time (snd (CurrentIsAcceptable env st)) = max_cpu_time st"
  "diverging_iterates_tol (snd (CurrentIsAcceptable env st)) = diverging_iterates_tol st"
  "dual_inf_tol (snd (CurrentIsAcceptable env st)) = dual_inf_tol st"
  "compl_inf_tol (snd (CurrentIsAcceptable env st)) = compl_inf_tol st"
  by (cases "square_problem env"; cases "iter_count env = last_obj_val_iter st";
      simp add: CurrentIsAcceptable_def)+

lemma CurrentIsAcceptable_obj [simp]:
  "curr_obj_val (snd (CurrentIsAcceptable env st))
     = (if iter_count env \<noteq> last_obj_val_iter st then curr_f env else curr_obj_val st)"
  "last_obj_val (snd (CurrentIsAcceptable env st))
     = (if iter_count env \<noteq> last_obj_val_iter st then curr_obj_val st else last_obj_val st)"
  by (cases "square_problem env"; cases "iter_count env = last_obj_val_iter st";
      simp add: CurrentIsAcceptable_def)+

lemma CurrentIsAcceptable_tol [simp]:
  "acceptable_dual_inf_tol (snd (CurrentIsAcceptable env st))
     = (if square_problem env then relaxed_tol else acceptable_dual_inf_tol st)"
  "acceptable_compl_inf_tol (snd (CurrentIsAcceptable env st))
     = (if square_problem env then relaxed_tol else acceptable_compl_inf_tol st)"
  by (cases "square_problem env"; cases "iter_count env = last_obj_val_iter st";
      simp add: CurrentIsAcceptable_def)+

lemma limit_checks_cong:
  "max_iterations w1 = max_iterations w2 \<Longrightarrow> max_cpu_time w1 = max_cpu_time w2 \<Longrightarrow>
   diverging_iterates_tol w1 = diverging_iterates_tol w2 \<Longrightarrow>
   limit_checks env w1 = limit_checks env w2"
  by (simp add: limit_checks_def)

subsection \<open>The check after the callback, branch by branch\<close>

lemma check_quantities_unfold:
  "check_quantities env w =
     (if primary_test env (relax_primary env w) then (CONVERGED, relax_primary env w)
      else if 0 < acceptable_iter w \<and> fst (CurrentIsAcceptable env (relax_primary env w)) then
        (if acceptable_iter w \<le> increment (acceptable_counter w)
         then CONVERGED_TO_ACCEPTABLE_POINT
         else limit_checks env w,
         (snd (CurrentIsAcceptable env (relax_primary env w)))
           \<lparr>info_string := info_string w @ ''A'',
              acceptable_counter := increment (acceptable_counter w)\<rparr>)
      else
        (limit_checks env w,
         (if 0 < acceptable_iter w then snd (CurrentIsAcceptable env (relax_primary env w))
          else relax_primary env w)\<lparr>acceptable_counter := 0\<rparr>))"
proof -
  obtain a w2 where ca: "CurrentIsAcceptable env (relax_primary env w) = (a, w2)"
    by (cases "CurrentIsAcceptable env (relax_primary env w)") simp
  have fr: "acceptable_iter w2 = acceptable_iter w" "acceptable_counter w2 = acceptable_counter w"
    "max_iterations w2 = max_iterations w" "max_cpu_time w2 = max_cpu_time w"
    "diverging_iterates_tol w2 = diverging_iterates_tol w" "info_string w2 = info_string w"
    using CurrentIsAcceptable_frame [of env "relax_primary env w"] by (simp_all add: ca)
  have l1: "limit_checks env
      (w2\<lparr>info_string := info_string w @ ''A'',
          acceptable_counter := increment (acceptable_counter w)\<rparr>)
      = limit_checks env w"
    by (rule limit_checks_cong) (simp_all add: fr)
  have l2: "limit_checks env (w2\<lparr>acceptable_counter := 0\<rparr>) = limit_checks env w"
    by (rule limit_checks_cong) (simp_all add: fr)
  have l3: "limit_checks env ((relax_primary env w)\<lparr>acceptable_counter := 0\<rparr>) = limit_checks env w"
    by (rule limit_checks_cong) simp_all
  show ?thesis
    by (simp add: check_quantities_def ca Let_def fr l1 l2 l3)
qed

lemma limit_checks_not_stop [simp]: "limit_checks env w \<noteq> USER_STOP"
  by (simp add: limit_checks_def Let_def)

lemma limit_checks_not_converged [simp]: "limit_checks env w \<noteq> CONVERGED"
  by (simp add: limit_checks_def Let_def)

lemma limit_checks_cpu:
  "(limit_checks env w = CPUTIME_EXCEEDED) =
     (\<not> diverging_iterates_tol w < Amax (curr_x env) \<and> iter_count env < max_iterations w
      \<and> max_cpu_time w < 999999
      \<and> max_cpu_time w < double_minus (CpuTime env) (cpu_time_start env))"
  by (simp add: limit_checks_def Let_def)

lemma limit_checks_not_acceptable [simp]:
  "limit_checks env w \<noteq> CONVERGED_TO_ACCEPTABLE_POINT"
  by (simp add: limit_checks_def Let_def)

lemma check_quantities_user [simp]:
  "user_state (snd (check_quantities env w)) = user_state w"
  by (simp add: check_quantities_unfold)

lemma check_quantities_not_stop [simp]:
  "fst (check_quantities env w) \<noteq> USER_STOP"
  by (simp add: check_quantities_unfold)

text \<open>The check reads eleven quantities of its collaborators and no other.\<close>

lemma check_quantities_cong:
  assumes "iter_count env' = iter_count env"
    and "curr_nlp_error env' = curr_nlp_error env"
    and "unscaled_curr_dual_infeasibility env' = unscaled_curr_dual_infeasibility env"
    and "unscaled_curr_nlp_constraint_violation env' = unscaled_curr_nlp_constraint_violation env"
    and "unscaled_curr_complementarity env' = unscaled_curr_complementarity env"
    and "curr_x env' = curr_x env"
    and "curr_y_c env' = curr_y_c env"
    and "tol env' = tol env"
    and "curr_f env' = curr_f env"
    and "CpuTime env' = CpuTime env"
    and "cpu_time_start env' = cpu_time_start env"
  shows "check_quantities env' w = check_quantities env w"
proof -
  have sq: "square_problem env' = square_problem env"
    by (simp add: square_problem_def assms)
  have rp: "\<And>st. relax_primary env' st = relax_primary env st"
    by (simp add: relax_primary_def sq)
  have pt: "\<And>st. primary_test env' st = primary_test env st"
    by (simp add: primary_test_def assms)
  have ca: "\<And>st. CurrentIsAcceptable env' st = CurrentIsAcceptable env st"
    by (simp add: CurrentIsAcceptable_def sq assms)
  have lc: "\<And>st. limit_checks env' st = limit_checks env st"
    by (simp add: limit_checks_def assms)
  show ?thesis
    by (simp only: check_quantities_def rp pt ca lc)
qed

subsection \<open>The callback\<close>

lemma step_norm_Inr:
  "step_norm env =
     Inr (case delta env of
            None \<Rightarrow> 0
          | Some d \<Rightarrow>
              (case delta_x d of
                 None \<Rightarrow> 0
               | Some dx \<Rightarrow> (case delta_s d of None \<Rightarrow> 0 | Some ds \<Rightarrow> max (Amax dx) (Amax ds))))"
  by (simp add: step_norm_def IsValid_def deref_def bind_err_def split: option.splits)

lemma call_callback_Inr:
  "\<exists>stop u'. call_callback env u = Inr (stop, u')"
  by (simp add: call_callback_def step_norm_Inr bind_err_def split: prod.splits)

lemma CheckConvergence_unfold:
  "CheckConvergence b env w =
     Inr (if user_requests_stop b env w then (USER_STOP, after_callback b env w)
          else check_quantities env (after_callback b env w))"
proof (cases b)
  case False
  then show ?thesis
    by (simp add: CheckConvergence_def user_requests_stop_def after_callback_def)
next
  case True
  obtain stop u' where cb: "call_callback env (user_state w) = Inr (stop, u')"
    using call_callback_Inr [of env "user_state w"] by auto
  with True show ?thesis
    by (simp add: CheckConvergence_def user_requests_stop_def after_callback_def bind_err_def)
qed

lemma after_callback_eq: "\<exists>u. after_callback b env w = w\<lparr>user_state := u\<rparr>"
proof (cases b)
  case False
  then show ?thesis
    by (intro exI [of _ "user_state w"]) (simp add: after_callback_def)
next
  case True
  obtain stop u' where "call_callback env (user_state w) = Inr (stop, u')"
    using call_callback_Inr [of env "user_state w"] by auto
  with True show ?thesis
    by (intro exI [of _ u']) (simp add: after_callback_def)
qed

lemma primary_test_user [simp]:
  "primary_test env (relax_primary env (w\<lparr>user_state := u\<rparr>)) = primary_test env (relax_primary env w)"
  by (simp add: primary_test_def relax_primary_def)

lemma after_callback_fields [simp]:
  "max_iterations (after_callback b env w) = max_iterations w"
  "acceptable_iter (after_callback b env w) = acceptable_iter w"
  "acceptable_counter (after_callback b env w) = acceptable_counter w"
  by (auto simp: after_callback_def split: sum.splits prod.splits)

lemma primary_test_after [simp]:
  "primary_test env (relax_primary env (after_callback b env w)) = primary_test env (relax_primary env w)"
  by (auto simp: after_callback_def split: sum.splits prod.splits)

lemma CurrentIsAcceptable_user_state [simp]:
  "fst (CurrentIsAcceptable env (relax_primary env (w\<lparr>user_state := u\<rparr>)))
     = fst (CurrentIsAcceptable env (relax_primary env w))"
  by (simp add: CurrentIsAcceptable_fst)

lemma after_callback_more [simp]:
  "fst (CurrentIsAcceptable env (relax_primary env (after_callback b env w)))
     = fst (CurrentIsAcceptable env (relax_primary env w))"
proof -
  obtain u where "after_callback b env w = w\<lparr>user_state := u\<rparr>"
    using after_callback_eq [of b env w] by auto
  then show ?thesis by simp
qed

lemma limit_checks_after [simp]:
  "limit_checks env (after_callback b env w) = limit_checks env w"
proof -
  obtain u where "after_callback b env w = w\<lparr>user_state := u\<rparr>"
    using after_callback_eq [of b env w] by auto
  then show ?thesis by (simp add: limit_checks_def)
qed

subsection \<open>The counter of consecutive acceptable iterates\<close>

lemma increment_wraps: "increment 2147483647 = - 2147483648"
  by (simp add: increment_def)

lemma increment_le: "increment i \<le> i + 1"
  by (simp add: increment_def)

lemma increment_eq: "i < 2147483647 \<Longrightarrow> increment i = i + 1"
  by (simp add: increment_def)

text \<open>
  One call leaves the counter at zero, as it was or incremented, and returns the acceptable
  status only with the incremented counter at the threshold.
\<close>

lemma CheckConvergence_step:
  "\<exists>s w'. CheckConvergence b env w = Inr (s, w')
      \<and> acceptable_iter w' = acceptable_iter w
      \<and> (acceptable_counter w' = 0 \<or> acceptable_counter w' = acceptable_counter w
          \<or> acceptable_counter w' = increment (acceptable_counter w))
      \<and> (s = CONVERGED_TO_ACCEPTABLE_POINT \<longrightarrow>
            acceptable_counter w' = increment (acceptable_counter w)
            \<and> acceptable_iter w \<le> increment (acceptable_counter w))"
  by (simp add: CheckConvergence_unfold check_quantities_unfold)

lemma CheckConvergence_pass:
  assumes "acceptable_test_passes b env w"
  shows "\<exists>s w'. CheckConvergence b env w = Inr (s, w')
      \<and> acceptable_iter w' = acceptable_iter w
      \<and> acceptable_counter w' = increment (acceptable_counter w)
      \<and> (s = CONVERGED_TO_ACCEPTABLE_POINT)
          = (acceptable_iter w \<le> increment (acceptable_counter w))"
  using assms
  by (simp add: CheckConvergence_unfold check_quantities_unfold acceptable_test_passes_def)

lemma CheckConvergence_fail:
  assumes "acceptable_test_fails b env w"
  shows "\<exists>s w'. CheckConvergence b env w = Inr (s, w') \<and> acceptable_counter w' = 0"
  using assms
  by (simp add: CheckConvergence_unfold check_quantities_unfold acceptable_test_fails_def)

text \<open>Consecutive passes, as long as the counter stays below its largest value.\<close>

lemma calls_pass:
  "passes_on_all cs w \<Longrightarrow> acceptable_counter w + int (length cs) \<le> 2147483647 \<Longrightarrow>
   \<exists>ss w'. CheckConvergence_calls cs w = Inr (ss, w') \<and> length ss = length cs
     \<and> acceptable_counter w' = acceptable_counter w + int (length cs)
     \<and> (\<forall>i<length cs. (ss ! i = CONVERGED_TO_ACCEPTABLE_POINT)
            = (acceptable_iter w \<le> acceptable_counter w + int i + 1))"
proof (induction cs arbitrary: w)
  case Nil
  then show ?case by simp
next
  case (Cons c cs)
  obtain b env where c: "c = (b, env)" by (cases c)
  from Cons.prems c have p: "acceptable_test_passes b env w" by simp
  have inc: "increment (acceptable_counter w) = acceptable_counter w + 1"
    using Cons.prems(2) by (intro increment_eq) simp
  from CheckConvergence_pass [OF p] obtain s w1 where
    st: "CheckConvergence b env w = Inr (s, w1)"
    and it: "acceptable_iter w1 = acceptable_iter w"
    and ct: "acceptable_counter w1 = acceptable_counter w + 1"
    and s: "(s = CONVERGED_TO_ACCEPTABLE_POINT) = (acceptable_iter w \<le> acceptable_counter w + 1)"
    by (auto simp: inc)
  from Cons.prems c st have p1: "passes_on_all cs w1" by simp
  have b1: "acceptable_counter w1 + int (length cs) \<le> 2147483647"
    using Cons.prems(2) ct by simp
  from Cons.IH [OF p1 b1] obtain ss w' where
    r: "CheckConvergence_calls cs w1 = Inr (ss, w')"
    and len: "length ss = length cs"
    and ct': "acceptable_counter w' = acceptable_counter w1 + int (length cs)"
    and all: "\<forall>i<length cs. (ss ! i = CONVERGED_TO_ACCEPTABLE_POINT)
            = (acceptable_iter w1 \<le> acceptable_counter w1 + int i + 1)"
    by auto
  have "CheckConvergence_calls (c # cs) w = Inr (s # ss, w')"
    by (simp add: c st r)
  moreover have "length (s # ss) = length (c # cs)"
    by (simp add: len)
  moreover have "acceptable_counter w' = acceptable_counter w + int (length (c # cs))"
    by (simp add: ct' ct)
  moreover have "\<forall>i<length (c # cs). ((s # ss) ! i = CONVERGED_TO_ACCEPTABLE_POINT)
            = (acceptable_iter w \<le> acceptable_counter w + int i + 1)"
  proof (intro allI impI)
    fix i assume i: "i < length (c # cs)"
    show "((s # ss) ! i = CONVERGED_TO_ACCEPTABLE_POINT)
            = (acceptable_iter w \<le> acceptable_counter w + int i + 1)"
    proof (cases i)
      case 0
      then show ?thesis by (simp add: s)
    next
      case (Suc j)
      with i have "j < length cs" by simp
      with all have "(ss ! j = CONVERGED_TO_ACCEPTABLE_POINT)
            = (acceptable_iter w1 \<le> acceptable_counter w1 + int j + 1)" by simp
      with Suc show ?thesis by (simp add: it ct)
    qed
  qed
  ultimately show ?case by simp
qed

text \<open>Any calls: the acceptable status needs the threshold within reach of the counter.\<close>

lemma calls_bound:
  "0 \<le> k \<Longrightarrow> acceptable_counter w \<le> k \<Longrightarrow>
   \<exists>ss w'. CheckConvergence_calls cs w = Inr (ss, w') \<and> length ss = length cs
     \<and> (\<forall>i<length cs. ss ! i = CONVERGED_TO_ACCEPTABLE_POINT
            \<longrightarrow> acceptable_iter w \<le> k + int i + 1)"
proof (induction cs arbitrary: w k)
  case Nil
  then show ?case by simp
next
  case (Cons c cs)
  obtain b env where c: "c = (b, env)" by (cases c)
  from CheckConvergence_step [of b env w] obtain s w1 where
    st: "CheckConvergence b env w = Inr (s, w1)"
    and it: "acceptable_iter w1 = acceptable_iter w"
    and ct: "acceptable_counter w1 = 0 \<or> acceptable_counter w1 = acceptable_counter w
          \<or> acceptable_counter w1 = increment (acceptable_counter w)"
    and s: "s = CONVERGED_TO_ACCEPTABLE_POINT \<longrightarrow>
            acceptable_counter w1 = increment (acceptable_counter w)
            \<and> acceptable_iter w \<le> increment (acceptable_counter w)"
    by auto
  have k1: "0 \<le> k + 1" using Cons.prems(1) by simp
  have b1: "acceptable_counter w1 \<le> k + 1"
    using Cons.prems ct increment_le [of "acceptable_counter w"] by linarith
  from Cons.IH [OF k1 b1] obtain ss w' where
    r: "CheckConvergence_calls cs w1 = Inr (ss, w')"
    and len: "length ss = length cs"
    and all: "\<forall>i<length cs. ss ! i = CONVERGED_TO_ACCEPTABLE_POINT
            \<longrightarrow> acceptable_iter w1 \<le> k + 1 + int i + 1"
    by auto
  have "CheckConvergence_calls (c # cs) w = Inr (s # ss, w')"
    by (simp add: c st r)
  moreover have "length (s # ss) = length (c # cs)"
    by (simp add: len)
  moreover have "\<forall>i<length (c # cs). (s # ss) ! i = CONVERGED_TO_ACCEPTABLE_POINT
            \<longrightarrow> acceptable_iter w \<le> k + int i + 1"
  proof (intro allI impI)
    fix i assume i: "i < length (c # cs)"
      and a: "(s # ss) ! i = CONVERGED_TO_ACCEPTABLE_POINT"
    show "acceptable_iter w \<le> k + int i + 1"
    proof (cases i)
      case 0
      with a s have "acceptable_iter w \<le> increment (acceptable_counter w)" by simp
      with Cons.prems(2) increment_le [of "acceptable_counter w"] 0 show ?thesis by simp
    next
      case (Suc j)
      with i a have "j < length cs" "ss ! j = CONVERGED_TO_ACCEPTABLE_POINT" by simp_all
      with all have "acceptable_iter w1 \<le> k + 1 + int j + 1" by simp
      with Suc show ?thesis by (simp add: it)
    qed
  qed
  ultimately show ?case by simp
qed

subsection \<open>The rounded difference of two doubles\<close>

lemma round_to_even_int [simp]: "round_to_even (of_int m) = m"
  by (simp add: round_to_even_def)

text \<open>Rounding a real whose binary exponent is known.\<close>

lemma double_round_eval:
  assumes "2 powr (of_int e) \<le> \<bar>x\<bar>" and "\<bar>x\<bar> < 2 powr (of_int (e + 1))" and "- 1022 \<le> e"
  shows "double_round x
     = of_int (round_to_even (x / 2 powr (of_int (e - 52)))) * 2 powr (of_int (e - 52))"
proof -
  have x0: "0 < \<bar>x\<bar>"
    using assms(1) by (smt (verit) powr_gt_zero)
  have "\<lfloor>log 2 \<bar>x\<bar>\<rfloor> = e"
    using assms(1,2) x0 by (subst floor_log_eq_powr_iff) simp_all
  then show ?thesis
    using x0 assms(3) by (simp add: double_round_def Let_def max_def)
qed

text \<open>Two million seconds from a start at zero are elapsed exactly.\<close>

lemma double_minus_2e6: "double_minus 2000000 0 = 2000000"
proof -
  have p: "(2::real) powr (of_int 20) = 2 ^ 20" "(2::real) powr (of_int (20 + 1)) = 2 ^ 21"
    "(2::real) powr (of_int (20 - 52)) = 1 / 2 ^ 32"
    by (simp_all add: powr_minus field_simps flip: powr_realpow)
  have "double_round 2000000
     = of_int (round_to_even (2000000 / 2 powr (of_int (20 - 52)))) * 2 powr (of_int (20 - 52))"
    by (rule double_round_eval) (simp_all only: p, simp_all)
  also have "2000000 / 2 powr (of_int (20 - 52)) = (of_int (2000000 * 2 ^ 32) :: real)"
    by (simp only: p) simp
  finally have "double_round 2000000 = of_int (2000000 * 2 ^ 32) * 2 powr (of_int (20 - 52))"
    by (simp only: round_to_even_int)
  moreover have "(2::real) powr (- 32) = 1 / 2 ^ 32"
    by (simp add: powr_minus field_simps flip: powr_realpow)
  ultimately show ?thesis
    by (simp add: double_minus_def)
qed

text \<open>
  A difference that is not a double is rounded: \<open>1 + 2^-52\<close> less \<open>3 * 2^-54\<close> is
  \<open>1 + 2^-54\<close>, which lies between the doubles \<open>1\<close> and \<open>1 + 2^-52\<close> and rounds to \<open>1\<close>.
\<close>

lemma double_minus_rounds: "double_minus (1 + 1 / 2 ^ 52) (3 / 2 ^ 54) = 1"
proof -
  have p: "(2::real) powr (of_int 0) = 1" "(2::real) powr (of_int (0 + 1)) = 2"
    "(2::real) powr (of_int (0 - 52)) = 1 / 2 ^ 52"
    by (simp_all add: powr_minus field_simps flip: powr_realpow)
  have x: "(1 + 1 / 2 ^ 52) - 3 / 2 ^ 54 = (1 + 1 / 2 ^ 54 :: real)"
    by simp
  have "double_round (1 + 1 / 2 ^ 54)
     = of_int (round_to_even ((1 + 1 / 2 ^ 54) / 2 powr (of_int (0 - 52)))) * 2 powr (of_int (0 - 52))"
    by (rule double_round_eval) (simp_all only: p, simp_all)
  also have "(1 + 1 / 2 ^ 54) / 2 powr (of_int (0 - 52)) = (2 ^ 52 + 1 / 4 :: real)"
    by (simp only: p) simp
  also have "round_to_even (2 ^ 52 + 1 / 4) = 2 ^ 52"
  proof -
    have "\<lfloor>2 ^ 52 + 1 / 4 :: real\<rfloor> = 2 ^ 52"
      by (rule floor_unique) simp_all
    then show ?thesis
      by (simp add: round_to_even_def Let_def)
  qed
  finally have "double_round (1 + 1 / 2 ^ 54) = of_int (2 ^ 52) * 2 powr (of_int (0 - 52))" .
  moreover have "(2::real) powr (- 52) = 1 / 2 ^ 52"
    by (simp add: powr_minus field_simps flip: powr_realpow)
  ultimately show ?thesis
    by (simp add: double_minus_def x)
qed

subsection \<open>The options and the example inputs\<close>

lemma GetOption_dual_inf_tol:
  "GetOption (RegisterOptions []) ''dual_inf_tol'' = Some (LowerBoundedNumberOption ''dual_inf_tol'' 0 True 1)"
  by (simp add: GetOption_def RegisterOptions_def AddLowerBoundedIntegerOption_def
      AddLowerBoundedNumberOption_def)

lemmas example_defs = example_env_def initial_world_def stopping_env_def maxiter_env_def
  square_env_def slow_env_def acceptable_env_def running_world_def stopping_callback_def

lemmas eval_defs = user_requests_stop_def after_callback_def call_callback_def step_norm_def
  IsValid_def deref_def bind_err_def callback_args_def square_problem_def Dim_def Amax_def
  primary_test_eq CurrentIsAcceptable_fst limit_checks_def obj_change_def

text \<open>
  A call at an acceptable iterate of the example, whatever the counter: the acceptable test
  passes and the counter is incremented.
\<close>

lemma acceptable_env_call:
  assumes "0 < i"
  shows "acceptable_test_passes False (acceptable_env i)
           (running_world\<lparr>last_obj_val_iter := j, info_string := a, acceptable_counter := k\<rparr>)"
    and "\<exists>s. CheckConvergence False (acceptable_env i)
           (running_world\<lparr>last_obj_val_iter := j, info_string := a, acceptable_counter := k\<rparr>)
         = Inr (s, running_world\<lparr>last_obj_val_iter := i, info_string := a @ ''A'',
                    acceptable_counter := increment k\<rparr>)"
proof -
  show "acceptable_test_passes False (acceptable_env i)
           (running_world\<lparr>last_obj_val_iter := j, info_string := a, acceptable_counter := k\<rparr>)"
    by (simp add: acceptable_test_passes_def eval_defs example_defs)
  then show "\<exists>s. CheckConvergence False (acceptable_env i)
           (running_world\<lparr>last_obj_val_iter := j, info_string := a, acceptable_counter := k\<rparr>)
         = Inr (s, running_world\<lparr>last_obj_val_iter := i, info_string := a @ ''A'',
                    acceptable_counter := increment k\<rparr>)"
    by (cases "i = j")
       (simp_all add: acceptable_test_passes_def CheckConvergence_def check_quantities_unfold
          CurrentIsAcceptable_def relax_primary_def square_problem_def Dim_def example_defs)
qed

lemma passes_acceptable_envs:
  "\<forall>i\<in>set ns. 0 < i \<Longrightarrow>
   passes_on_all (map (\<lambda>i. (False, acceptable_env i)) ns)
     (running_world\<lparr>last_obj_val_iter := j, info_string := a, acceptable_counter := k\<rparr>)"
proof (induction ns arbitrary: j a k)
  case Nil
  then show ?case by simp
next
  case (Cons i ns)
  then have i: "0 < i" by simp
  from acceptable_env_call(2) [OF i, where j = j and a = a and k = k] obtain s where
    "CheckConvergence False (acceptable_env i)
           (running_world\<lparr>last_obj_val_iter := j, info_string := a, acceptable_counter := k\<rparr>)
         = Inr (s, running_world\<lparr>last_obj_val_iter := i, info_string := a @ ''A'',
                    acceptable_counter := increment k\<rparr>)"
    by auto
  moreover have "passes_on_all (map (\<lambda>i. (False, acceptable_env i)) ns)
     (running_world\<lparr>last_obj_val_iter := i, info_string := a @ ''A'', acceptable_counter := increment k\<rparr>)"
    using Cons by simp
  ultimately show ?case
    using acceptable_env_call(1) [OF i, where j = j and a = a and k = k] by simp
qed

section \<open>The claims\<close>

subsection \<open>C1: convergence is checked before the iteration limit\<close>

text \<open>
  Claim C1, as the code has it: whenever the callback is not called or does not ask to
  stop, and both the primary convergence test (on the tolerances in effect, after the
  overwriting for a square problem) and the iteration limit hold, \<^verbatim>\<open>CheckConvergence\<close>
  returns \<open>CONVERGED\<close>, not \<open>MAXITER_EXCEEDED\<close>; of the checker's members only the two
  overwritten tolerances can have changed.
\<close>

theorem C1_converged_before_maxiter:
  assumes "\<not> user_requests_stop b env w"
    and "primary_test env (relax_primary env w)"
    and "max_iterations w \<le> iter_count env"
  shows "CheckConvergence b env w = Inr (CONVERGED, relax_primary env (after_callback b env w))"
  using assms by (simp add: CheckConvergence_unfold check_quantities_def)

theorem C1_witness:
  "\<not> user_requests_stop True maxiter_env initial_world
   \<and> primary_test maxiter_env (relax_primary maxiter_env initial_world)
   \<and> max_iterations initial_world \<le> iter_count maxiter_env
   \<and> CheckConvergence True maxiter_env initial_world
       = Inr (CONVERGED, relax_primary maxiter_env (after_callback True maxiter_env initial_world))"
proof -
  have h1: "\<not> user_requests_stop True maxiter_env initial_world"
    by (simp add: eval_defs example_defs)
  have h2: "primary_test maxiter_env (relax_primary maxiter_env initial_world)"
    by (simp add: eval_defs example_defs)
  have h3: "max_iterations initial_world \<le> iter_count maxiter_env"
    by (simp add: example_defs)
  show ?thesis
    using h1 h2 h3 C1_converged_before_maxiter [OF h1 h2 h3] by simp
qed

text \<open>
  Without the condition on the callback the statement fails: at the iteration limit, with
  all four quantities within their tolerances, a callback that asks to stop makes the call
  return \<open>USER_STOP\<close>.
\<close>

theorem C1_counterexample:
  "primary_test (maxiter_env\<lparr>IntermediateCallBack := stopping_callback\<rparr>)
     (relax_primary (maxiter_env\<lparr>IntermediateCallBack := stopping_callback\<rparr>) initial_world)
   \<and> max_iterations initial_world \<le> iter_count (maxiter_env\<lparr>IntermediateCallBack := stopping_callback\<rparr>)
   \<and> CheckConvergence True (maxiter_env\<lparr>IntermediateCallBack := stopping_callback\<rparr>) initial_world
       = Inr (USER_STOP, initial_world)"
  by (simp add: CheckConvergence_unfold eval_defs example_defs)

subsection \<open>C2: fifteen consecutive acceptable iterates\<close>

text \<open>
  Claim C2. With \<^verbatim>\<open>acceptable_iter\<close> set to 15:
  \<^item> from a counter at zero, fifteen consecutive calls on which the acceptable test passes
    return \<open>CONVERGED_TO_ACCEPTABLE_POINT\<close> on the fifteenth call and on none before;
  \<^item> a call on which the acceptable test fails leaves the counter at zero;
  \<^item> a call on a counter below \<open>2147483647\<close>, the largest value of its type, leaves the
    counter at zero, unchanged or one higher: it never decreases but to zero (within a
    solve the counter does not pass the threshold, since the solve ends there);
  \<^item> from a counter at zero, whatever and however many the calls, none of the first
    fourteen returns \<open>CONVERGED_TO_ACCEPTABLE_POINT\<close>: after a reset fifteen more passes
    are needed.
  No call fails.
\<close>

theorem C2_acceptable_counter:
  fixes w :: "'u World"
  assumes "acceptable_iter w = 15"
  shows "(acceptable_counter w = 0 \<longrightarrow> length cs = 15 \<longrightarrow> passes_on_all cs w \<longrightarrow>
            (\<exists>ss w'. CheckConvergence_calls cs w = Inr (ss, w') \<and> length ss = 15
               \<and> ss ! 14 = CONVERGED_TO_ACCEPTABLE_POINT
               \<and> (\<forall>i<14. ss ! i \<noteq> CONVERGED_TO_ACCEPTABLE_POINT)))
       \<and> (acceptable_test_fails b env w \<longrightarrow>
            (\<exists>s w'. CheckConvergence b env w = Inr (s, w') \<and> acceptable_counter w' = 0))
       \<and> (acceptable_counter w < 2147483647 \<longrightarrow>
            (\<exists>s w'. CheckConvergence b env w = Inr (s, w')
              \<and> (acceptable_counter w' = 0 \<or> acceptable_counter w' = acceptable_counter w
                  \<or> acceptable_counter w' = acceptable_counter w + 1)))
       \<and> (acceptable_counter w = 0 \<longrightarrow>
            (\<exists>ss w'. CheckConvergence_calls ds w = Inr (ss, w') \<and> length ss = length ds
               \<and> (\<forall>i<length ds. ss ! i = CONVERGED_TO_ACCEPTABLE_POINT \<longrightarrow> 14 \<le> i)))"
proof (intro conjI impI)
  assume c0: "acceptable_counter w = 0" and len: "length cs = 15" and p: "passes_on_all cs w"
  have "acceptable_counter w + int (length cs) \<le> 2147483647"
    by (simp add: c0 len)
  from calls_pass [OF p this] obtain ss w' where
    r: "CheckConvergence_calls cs w = Inr (ss, w')"
    and l: "length ss = length cs"
    and all: "\<forall>i<length cs. (ss ! i = CONVERGED_TO_ACCEPTABLE_POINT)
            = (acceptable_iter w \<le> acceptable_counter w + int i + 1)"
    by auto
  have "ss ! 14 = CONVERGED_TO_ACCEPTABLE_POINT"
    using all len c0 assms by simp
  moreover have "\<forall>i<14. ss ! i \<noteq> CONVERGED_TO_ACCEPTABLE_POINT"
    using all len c0 assms by simp
  ultimately show "\<exists>ss w'. CheckConvergence_calls cs w = Inr (ss, w') \<and> length ss = 15
               \<and> ss ! 14 = CONVERGED_TO_ACCEPTABLE_POINT
               \<and> (\<forall>i<14. ss ! i \<noteq> CONVERGED_TO_ACCEPTABLE_POINT)"
    using r l len by simp
next
  assume "acceptable_test_fails b env w"
  then show "\<exists>s w'. CheckConvergence b env w = Inr (s, w') \<and> acceptable_counter w' = 0"
    by (rule CheckConvergence_fail)
next
  assume "acceptable_counter w < 2147483647"
  then have "increment (acceptable_counter w) = acceptable_counter w + 1"
    by (rule increment_eq)
  then show "\<exists>s w'. CheckConvergence b env w = Inr (s, w')
            \<and> (acceptable_counter w' = 0 \<or> acceptable_counter w' = acceptable_counter w
                \<or> acceptable_counter w' = acceptable_counter w + 1)"
    using CheckConvergence_step [of b env w] by auto
next
  assume c0: "acceptable_counter w = 0"
  have "\<exists>ss w'. CheckConvergence_calls ds w = Inr (ss, w') \<and> length ss = length ds
     \<and> (\<forall>i<length ds. ss ! i = CONVERGED_TO_ACCEPTABLE_POINT
            \<longrightarrow> acceptable_iter w \<le> 0 + int i + 1)"
    by (rule calls_bound) (simp_all add: c0)
  then show "\<exists>ss w'. CheckConvergence_calls ds w = Inr (ss, w') \<and> length ss = length ds
               \<and> (\<forall>i<length ds. ss ! i = CONVERGED_TO_ACCEPTABLE_POINT \<longrightarrow> 14 \<le> i)"
    using assms by auto
qed

theorem C2_witness:
  "acceptable_iter running_world = 15 \<and> acceptable_counter running_world = 0
   \<and> acceptable_counter running_world < 2147483647
   \<and> length acceptable_calls = 15 \<and> passes_on_all acceptable_calls running_world
   \<and> acceptable_test_fails False slow_env running_world
   \<and> (\<exists>ss w'. CheckConvergence_calls acceptable_calls running_world = Inr (ss, w')
         \<and> length ss = 15 \<and> ss ! 14 = CONVERGED_TO_ACCEPTABLE_POINT
         \<and> (\<forall>i<14. ss ! i \<noteq> CONVERGED_TO_ACCEPTABLE_POINT))
   \<and> (\<exists>s w'. CheckConvergence False slow_env running_world = Inr (s, w')
         \<and> acceptable_counter w' = 0)"
proof -
  have h0: "acceptable_iter running_world = 15"
    by (simp add: example_defs)
  have h1: "acceptable_counter running_world = 0"
    by (simp add: example_defs)
  have h1': "acceptable_counter running_world < 2147483647"
    by (simp add: example_defs)
  have h2: "length acceptable_calls = 15"
    by (simp add: acceptable_calls_def)
  have w: "running_world\<lparr>last_obj_val_iter := 0, info_string := [], acceptable_counter := 0\<rparr>
      = running_world"
    by (simp add: example_defs)
  have h3: "passes_on_all acceptable_calls running_world"
    using passes_acceptable_envs [where ns = "[1, 2, 3, 4, 5, 6, 7, 8, 9, 10, 11, 12, 13, 14, 15]"
        and j = 0 and a = "[]" and k = 0]
    by (simp add: acceptable_calls_def w)
  have h4: "acceptable_test_fails False slow_env running_world"
    by (simp add: acceptable_test_fails_def eval_defs example_defs)
  show ?thesis
    using h0 h1 h1' h2 h3 h4 C2_acceptable_counter [OF h0, of acceptable_calls False slow_env]
    by blast
qed

subsection \<open>C3: square problems\<close>




subsection \<open>C4: the CPU time limit\<close>

text \<open>
  Claim C4, as the code has it. The elapsed CPU time is the difference the code computes:
  the current CPU time less the start of the solve, rounded to a double.
  \<^item> When no earlier terminal condition fires (no stop requested, primary test failed,
    acceptable threshold not reached, iterate not diverging, iteration limit not reached),
    \<^verbatim>\<open>CheckConvergence\<close> returns \<open>CPUTIME_EXCEEDED\<close> exactly when the configured maximum is
    below \<open>999999\<close> and the elapsed CPU time exceeds it.
  \<^item> In any state, \<open>CPUTIME_EXCEEDED\<close> is returned only for a maximum below \<open>999999\<close>
    that the elapsed CPU time exceeds: for a configured maximum of \<open>999999\<close> or more the
    limit is not checked.
\<close>

theorem C4_cpu_time:
  "(\<not> user_requests_stop b env w \<longrightarrow>
    \<not> primary_test env (relax_primary env w) \<longrightarrow>
    \<not> (0 < acceptable_iter w \<and> fst (CurrentIsAcceptable env (relax_primary env w))
        \<and> acceptable_iter w \<le> increment (acceptable_counter w)) \<longrightarrow>
    \<not> diverging_iterates_tol w < Amax (curr_x env) \<longrightarrow>
    iter_count env < max_iterations w \<longrightarrow>
      returns (CheckConvergence b env w) CPUTIME_EXCEEDED =
        (max_cpu_time w < 999999
         \<and> max_cpu_time w < double_minus (CpuTime env) (cpu_time_start env)))
   \<and> (returns (CheckConvergence b env w) CPUTIME_EXCEEDED \<longrightarrow>
        max_cpu_time w < 999999
        \<and> max_cpu_time w < double_minus (CpuTime env) (cpu_time_start env))
   \<and> (999999 \<le> max_cpu_time w \<longrightarrow> \<not> returns (CheckConvergence b env w) CPUTIME_EXCEEDED)"
proof -
  have r: "returns (CheckConvergence b env w) CPUTIME_EXCEEDED =
      (\<not> user_requests_stop b env w
       \<and> fst (check_quantities env (after_callback b env w)) = CPUTIME_EXCEEDED)"
    by (cases "check_quantities env (after_callback b env w)")
       (simp add: CheckConvergence_unfold returns_def)
  have only: "fst (check_quantities env (after_callback b env w)) = CPUTIME_EXCEEDED \<longrightarrow>
      limit_checks env w = CPUTIME_EXCEEDED"
    by (simp add: check_quantities_unfold)
  have 1: "\<not> user_requests_stop b env w \<longrightarrow>
    \<not> primary_test env (relax_primary env w) \<longrightarrow>
    \<not> (0 < acceptable_iter w \<and> fst (CurrentIsAcceptable env (relax_primary env w))
        \<and> acceptable_iter w \<le> increment (acceptable_counter w)) \<longrightarrow>
    \<not> diverging_iterates_tol w < Amax (curr_x env) \<longrightarrow>
    iter_count env < max_iterations w \<longrightarrow>
      returns (CheckConvergence b env w) CPUTIME_EXCEEDED =
        (max_cpu_time w < 999999
         \<and> max_cpu_time w < double_minus (CpuTime env) (cpu_time_start env))"
  proof (intro impI)
    assume a: "\<not> user_requests_stop b env w"
      "\<not> primary_test env (relax_primary env w)"
      "\<not> (0 < acceptable_iter w \<and> fst (CurrentIsAcceptable env (relax_primary env w))
        \<and> acceptable_iter w \<le> increment (acceptable_counter w))"
      "\<not> diverging_iterates_tol w < Amax (curr_x env)"
      "iter_count env < max_iterations w"
    have "fst (check_quantities env (after_callback b env w)) = limit_checks env w"
      using a(2,3) by (simp add: check_quantities_unfold)
    then show "returns (CheckConvergence b env w) CPUTIME_EXCEEDED =
        (max_cpu_time w < 999999
         \<and> max_cpu_time w < double_minus (CpuTime env) (cpu_time_start env))"
      using a(1,4,5) by (simp add: r limit_checks_cpu)
  qed
  have 2: "returns (CheckConvergence b env w) CPUTIME_EXCEEDED \<longrightarrow>
        max_cpu_time w < 999999
        \<and> max_cpu_time w < double_minus (CpuTime env) (cpu_time_start env)"
    using only by (simp add: r limit_checks_cpu)
  have 3: "999999 \<le> max_cpu_time w \<longrightarrow> \<not> returns (CheckConvergence b env w) CPUTIME_EXCEEDED"
    using 2 by auto
  show ?thesis
    using 1 2 3 by (intro conjI)
qed

theorem C4_witness:
  "\<not> user_requests_stop True slow_env (initial_world\<lparr>max_cpu_time := 3600\<rparr>)
   \<and> \<not> primary_test slow_env (relax_primary slow_env (initial_world\<lparr>max_cpu_time := 3600\<rparr>))
   \<and> \<not> (0 < acceptable_iter (initial_world\<lparr>max_cpu_time := 3600\<rparr>)
        \<and> fst (CurrentIsAcceptable slow_env (relax_primary slow_env (initial_world\<lparr>max_cpu_time := 3600\<rparr>)))
        \<and> acceptable_iter (initial_world\<lparr>max_cpu_time := 3600\<rparr>)
            \<le> increment (acceptable_counter (initial_world\<lparr>max_cpu_time := 3600\<rparr>)))
   \<and> \<not> diverging_iterates_tol (initial_world\<lparr>max_cpu_time := 3600\<rparr>) < Amax (curr_x slow_env)
   \<and> iter_count slow_env < max_iterations (initial_world\<lparr>max_cpu_time := 3600\<rparr>)
   \<and> max_cpu_time (initial_world\<lparr>max_cpu_time := 3600\<rparr>) < 999999
   \<and> max_cpu_time (initial_world\<lparr>max_cpu_time := 3600\<rparr>)
       < double_minus (CpuTime slow_env) (cpu_time_start slow_env)
   \<and> returns (CheckConvergence True slow_env (initial_world\<lparr>max_cpu_time := 3600\<rparr>)) CPUTIME_EXCEEDED
   \<and> 999999 \<le> max_cpu_time initial_world
   \<and> \<not> returns (CheckConvergence True slow_env initial_world) CPUTIME_EXCEEDED"
proof -
  define w where "w = initial_world\<lparr>max_cpu_time := 3600\<rparr>"
  have h1: "\<not> user_requests_stop True slow_env w"
    by (simp add: w_def eval_defs example_defs)
  have h2: "\<not> primary_test slow_env (relax_primary slow_env w)"
    by (simp add: w_def eval_defs example_defs)
  have h3: "\<not> (0 < acceptable_iter w \<and> fst (CurrentIsAcceptable slow_env (relax_primary slow_env w))
        \<and> acceptable_iter w \<le> increment (acceptable_counter w))"
    by (simp add: w_def eval_defs example_defs)
  have h4: "\<not> diverging_iterates_tol w < Amax (curr_x slow_env)"
    by (simp add: w_def eval_defs example_defs)
  have h5: "iter_count slow_env < max_iterations w"
    by (simp add: w_def example_defs)
  have h6: "max_cpu_time w < 999999"
    by (simp add: w_def example_defs)
  have h7: "max_cpu_time w < double_minus (CpuTime slow_env) (cpu_time_start slow_env)"
    by (simp add: w_def example_defs double_minus_2e6)
  have h8: "999999 \<le> max_cpu_time initial_world"
    by (simp add: example_defs)
  have c1: "returns (CheckConvergence True slow_env w) CPUTIME_EXCEEDED"
    using C4_cpu_time [of True slow_env w] h1 h2 h3 h4 h5 h6 h7 by blast
  have c2: "\<not> returns (CheckConvergence True slow_env initial_world) CPUTIME_EXCEEDED"
    using C4_cpu_time [of True slow_env initial_world] h8 by blast
  show ?thesis
    using h1 h2 h3 h4 h5 h6 h7 h8 c1 c2 unfolding w_def by blast
qed

text \<open>
  The guard \<^verbatim>\<open>max_cpu_time_ < 999999.\<close> switches the limit off for larger maxima: with
  the default of \<open>1e6\<close> seconds and two million seconds elapsed, no earlier condition
  firing, the call returns \<open>CONTINUE\<close>.
\<close>

theorem C4_counterexample:
  "\<not> user_requests_stop False slow_env initial_world
   \<and> \<not> primary_test slow_env (relax_primary slow_env initial_world)
   \<and> \<not> fst (CurrentIsAcceptable slow_env (relax_primary slow_env initial_world))
   \<and> \<not> diverging_iterates_tol initial_world < Amax (curr_x slow_env)
   \<and> iter_count slow_env < max_iterations initial_world
   \<and> max_cpu_time initial_world = 10 ^ 6
   \<and> CpuTime slow_env - cpu_time_start slow_env = 2 * 10 ^ 6
   \<and> double_minus (CpuTime slow_env) (cpu_time_start slow_env) = 2 * 10 ^ 6
   \<and> returns (CheckConvergence False slow_env initial_world) CONTINUE"
  by (simp add: CheckConvergence_unfold check_quantities_unfold returns_def eval_defs example_defs
      double_minus_2e6)

subsection \<open>C5: the primary convergence test\<close>

text \<open>
  Claim C5, as the code has it: whenever the callback is not called or does not ask to
  stop, and the overall error, the dual infeasibility, the constraint violation and the
  complementarity are within the tolerances in effect (for a square problem \<open>1e300\<close> for
  the dual infeasibility and the complementarity, else the configured ones),
  \<^verbatim>\<open>CheckConvergence\<close> returns \<open>CONVERGED\<close>.
\<close>

theorem C5_converged:
  assumes "\<not> user_requests_stop b env w"
    and "curr_nlp_error env \<le> tol env"
    and "unscaled_curr_dual_infeasibility env \<le> dual_inf_tol (relax_primary env w)"
    and "unscaled_curr_nlp_constraint_violation env \<le> constr_viol_tol w"
    and "unscaled_curr_complementarity env (mu_target w) \<le> compl_inf_tol (relax_primary env w)"
  shows "CheckConvergence b env w = Inr (CONVERGED, relax_primary env (after_callback b env w))"
proof -
  have "primary_test env (relax_primary env w)"
    using assms(2-5) by (simp add: primary_test_eq)
  then show ?thesis
    using assms(1) by (simp add: CheckConvergence_unfold check_quantities_unfold)
qed

theorem C5_witness:
  "\<not> user_requests_stop True example_env initial_world
   \<and> curr_nlp_error example_env \<le> tol example_env
   \<and> unscaled_curr_dual_infeasibility example_env \<le> dual_inf_tol (relax_primary example_env initial_world)
   \<and> unscaled_curr_nlp_constraint_violation example_env \<le> constr_viol_tol initial_world
   \<and> unscaled_curr_complementarity example_env (mu_target initial_world)
       \<le> compl_inf_tol (relax_primary example_env initial_world)
   \<and> CheckConvergence True example_env initial_world = Inr (CONVERGED, initial_world)"
proof -
  have h1: "\<not> user_requests_stop True example_env initial_world"
    by (simp add: eval_defs example_defs)
  have h2: "curr_nlp_error example_env \<le> tol example_env"
    by (simp add: example_defs)
  have h3: "unscaled_curr_dual_infeasibility example_env
      \<le> dual_inf_tol (relax_primary example_env initial_world)"
    by (simp add: eval_defs example_defs)
  have h4: "unscaled_curr_nlp_constraint_violation example_env \<le> constr_viol_tol initial_world"
    by (simp add: example_defs)
  have h5: "unscaled_curr_complementarity example_env (mu_target initial_world)
       \<le> compl_inf_tol (relax_primary example_env initial_world)"
    by (simp add: eval_defs example_defs)
  have r: "relax_primary example_env (after_callback True example_env initial_world) = initial_world"
    by (simp add: relax_primary_def eval_defs example_defs)
  show ?thesis
    using h1 h2 h3 h4 h5 C5_converged [OF h1 h2 h3 h4 h5] r by simp
qed

text \<open>
  Without the condition on the callback the statement fails at the very values of the
  claim: all four quantities are \<open>1e-9\<close>, within \<open>1e-8\<close>, 1, \<open>1e-4\<close> and \<open>1e-4\<close>, and a
  callback that asks to stop makes the call return \<open>USER_STOP\<close>.
\<close>

theorem C5_counterexample:
  "curr_nlp_error stopping_env = 1 / 10 ^ 9 \<and> tol stopping_env = 1 / 10 ^ 8
   \<and> unscaled_curr_dual_infeasibility stopping_env = 1 / 10 ^ 9 \<and> dual_inf_tol initial_world = 1
   \<and> unscaled_curr_nlp_constraint_violation stopping_env = 1 / 10 ^ 9
   \<and> constr_viol_tol initial_world = 1 / 10 ^ 4
   \<and> unscaled_curr_complementarity stopping_env (mu_target initial_world) = 1 / 10 ^ 9
   \<and> compl_inf_tol initial_world = 1 / 10 ^ 4
   \<and> CheckConvergence True stopping_env initial_world = Inr (USER_STOP, initial_world)"
  by (simp add: CheckConvergence_unfold eval_defs example_defs)

subsection \<open>C6: the range of the dual infeasibility tolerance\<close>

text \<open>
  Claim C6, as the code has it: \<^verbatim>\<open>dual_inf_tol\<close> is registered with the strict lower bound
  0, no upper bound and the default 1. So a value is accepted exactly when it is positive
  (any other is rejected when it is set, before the solve), the value read when none is set
  is 1, and an accepted value is the one initialisation stores in the checker.
\<close>

theorem C6_dual_inf_tol_range:
  "SetNumericValue (RegisterOptions []) ''dual_inf_tol'' v options =
     (if 0 < v then Inr ((''dual_inf_tol'', NumberValue v) # options) else Inl OptionInvalid)
   \<and> GetNumericValue (RegisterOptions []) [] ''dual_inf_tol'' = 1
   \<and> GetNumericValue (RegisterOptions []) ((''dual_inf_tol'', NumberValue v) # options)
        ''dual_inf_tol'' = v
   \<and> dual_inf_tol (snd (InitializeImpl getInteger
        (GetNumericValue (RegisterOptions []) ((''dual_inf_tol'', NumberValue v) # options)) st)) = v"
  by (simp add: SetNumericValue_def GetOption_dual_inf_tol GetNumericValue_def
      GetValue_def InitializeImpl_def)

text \<open>
  The value 2 lies outside \<open>(0, 1]\<close> and is accepted: initialisation stores it.
\<close>

theorem C6_counterexample:
  "\<not> (0 < (2::real) \<and> (2::real) \<le> 1)
   \<and> SetNumericValue (RegisterOptions []) ''dual_inf_tol'' 2 [] = Inr [(''dual_inf_tol'', NumberValue 2)]
   \<and> dual_inf_tol (snd (InitializeImpl (GetIntegerValue (RegisterOptions []) [(''dual_inf_tol'', NumberValue 2)])
        (GetNumericValue (RegisterOptions []) [(''dual_inf_tol'', NumberValue 2)]) initial_world)) = 2"
  by (simp add: SetNumericValue_def GetOption_dual_inf_tol GetNumericValue_def
      GetValue_def InitializeImpl_def)

subsection \<open>C7: a stop requested by the user\<close>

text \<open>
  Claim C7: when \<^verbatim>\<open>CheckConvergence\<close> is called with the callback enabled and the callback
  asks to stop, leaving the user's state \<open>u'\<close>, the call returns \<open>USER_STOP\<close> and the state
  differs from the one before by the user's state alone: no member of the checker and no
  info string has changed. The result is the same whatever the overall error, the dual
  infeasibility, the constraint violation, the complementarity and the tolerance are: none
  of them is compared.
\<close>

theorem C7_user_stop:
  assumes "call_callback env (user_state w) = Inr (True, u')"
  shows "CheckConvergence True env w = Inr (USER_STOP, w\<lparr>user_state := u'\<rparr>)
       \<and> CheckConvergence True
           (env\<lparr>curr_nlp_error := e, unscaled_curr_dual_infeasibility := d,
                unscaled_curr_nlp_constraint_violation := c,
                unscaled_curr_complementarity := k, tol := t\<rparr>) w =
         Inr (USER_STOP, w\<lparr>user_state := u'\<rparr>)"
proof
  show "CheckConvergence True env w = Inr (USER_STOP, w\<lparr>user_state := u'\<rparr>)"
    using assms by (simp add: CheckConvergence_def bind_err_def)
  have "call_callback
          (env\<lparr>curr_nlp_error := e, unscaled_curr_dual_infeasibility := d,
               unscaled_curr_nlp_constraint_violation := c,
               unscaled_curr_complementarity := k, tol := t\<rparr>) (user_state w)
        = call_callback env (user_state w)"
    by (simp add: call_callback_def step_norm_def callback_args_def)
  then show "CheckConvergence True
           (env\<lparr>curr_nlp_error := e, unscaled_curr_dual_infeasibility := d,
                unscaled_curr_nlp_constraint_violation := c,
                unscaled_curr_complementarity := k, tol := t\<rparr>) w =
         Inr (USER_STOP, w\<lparr>user_state := u'\<rparr>)"
    using assms by (simp add: CheckConvergence_def bind_err_def)
qed

theorem C7_witness:
  "call_callback stopping_env (user_state initial_world) = Inr (True, ())
   \<and> CheckConvergence True stopping_env initial_world = Inr (USER_STOP, initial_world)
   \<and> CheckConvergence True
        (stopping_env\<lparr>curr_nlp_error := 1, unscaled_curr_dual_infeasibility := 2,
           unscaled_curr_nlp_constraint_violation := 3,
           unscaled_curr_complementarity := (\<lambda>mu. 4), tol := 5\<rparr>) initial_world
       = Inr (USER_STOP, initial_world)"
proof -
  have h: "call_callback stopping_env (user_state initial_world) = Inr (True, ())"
    by (simp add: eval_defs example_defs)
  have "initial_world\<lparr>user_state := ()\<rparr> = initial_world"
    by simp
  then show ?thesis
    using h C7_user_stop [OF h] by simp
qed

subsection \<open>C8: the step norm given to the callback\<close>

text \<open>
  Claim C8: computing the step norm never fails. It is zero when the search direction, its
  \<open>x\<close> component or its \<open>s\<close> component is absent, and otherwise the larger of the
  max-norms of the two components; and it is the step norm among the arguments the
  callback is called with, a call that never fails either.
\<close>

theorem C8_step_norm:
  "step_norm env =
     Inr (case delta env of
            None \<Rightarrow> 0
          | Some d \<Rightarrow>
              (case (delta_x d, delta_s d) of
                 (Some dx, Some ds) \<Rightarrow> max (Amax dx) (Amax ds)
               | _ \<Rightarrow> 0))
   \<and> (\<exists>args. step_norm env = Inr (cb_d_norm args)
         \<and> call_callback env u =
             Inr (\<not> fst (IntermediateCallBack env args u), snd (IntermediateCallBack env args u)))"
proof
  show "step_norm env =
     Inr (case delta env of
            None \<Rightarrow> 0
          | Some d \<Rightarrow>
              (case (delta_x d, delta_s d) of
                 (Some dx, Some ds) \<Rightarrow> max (Amax dx) (Amax ds)
               | _ \<Rightarrow> 0))"
    by (simp add: step_norm_Inr split: option.splits)
next
  obtain v where v: "step_norm env = Inr v"
    using step_norm_Inr by blast
  have "step_norm env = Inr (cb_d_norm (callback_args env v))"
    by (simp add: v callback_args_def)
  moreover have "call_callback env u =
      Inr (\<not> fst (IntermediateCallBack env (callback_args env v) u),
           snd (IntermediateCallBack env (callback_args env v) u))"
    by (simp add: call_callback_def v bind_err_def split: prod.splits)
  ultimately show "\<exists>args. step_norm env = Inr (cb_d_norm args)
         \<and> call_callback env u =
             Inr (\<not> fst (IntermediateCallBack env args u), snd (IntermediateCallBack env args u))"
    by blast
qed

subsection \<open>C9: a call without the callback\<close>

text \<open>
  Claim C9: \<^verbatim>\<open>CheckConvergence\<close> called with \<^verbatim>\<open>call_intermediate_callback = false\<close> never
  fails, never returns \<open>USER_STOP\<close>, and leaves the user's state as it was: the callback is
  not invoked. Its result is the same for any two readings of the collaborators that agree
  on the iteration count, the four error quantities, the primal variables and the
  equality multipliers, the tolerance, the objective value and the two clock readings,
  whatever the callback and the quantities gathered for it are.
\<close>

theorem C9_no_callback:
  fixes env env' :: "'u IpoptEnv"
  assumes "iter_count env' = iter_count env"
    and "curr_nlp_error env' = curr_nlp_error env"
    and "unscaled_curr_dual_infeasibility env' = unscaled_curr_dual_infeasibility env"
    and "unscaled_curr_nlp_constraint_violation env' = unscaled_curr_nlp_constraint_violation env"
    and "unscaled_curr_complementarity env' = unscaled_curr_complementarity env"
    and "curr_x env' = curr_x env"
    and "curr_y_c env' = curr_y_c env"
    and "tol env' = tol env"
    and "curr_f env' = curr_f env"
    and "CpuTime env' = CpuTime env"
    and "cpu_time_start env' = cpu_time_start env"
  shows "\<exists>s w'. CheckConvergence False env w = Inr (s, w') \<and> s \<noteq> USER_STOP
           \<and> user_state w' = user_state w
           \<and> CheckConvergence False env' w = Inr (s, w')"
proof -
  have "CheckConvergence False env w =
      Inr (fst (check_quantities env w), snd (check_quantities env w))"
    by (simp add: CheckConvergence_def)
  moreover have "CheckConvergence False env' w = CheckConvergence False env w"
    using check_quantities_cong [OF assms] by (simp add: CheckConvergence_def)
  ultimately show ?thesis
    using check_quantities_not_stop check_quantities_user by metis
qed

theorem C9_witness:
  "iter_count stopping_env = iter_count example_env
   \<and> curr_nlp_error stopping_env = curr_nlp_error example_env
   \<and> IntermediateCallBack stopping_env \<noteq> IntermediateCallBack example_env
   \<and> CheckConvergence False example_env initial_world = Inr (CONVERGED, initial_world)
   \<and> CheckConvergence False stopping_env initial_world = Inr (CONVERGED, initial_world)"
proof -
  have h: "iter_count stopping_env = iter_count example_env"
    "curr_nlp_error stopping_env = curr_nlp_error example_env"
    "unscaled_curr_dual_infeasibility stopping_env = unscaled_curr_dual_infeasibility example_env"
    "unscaled_curr_nlp_constraint_violation stopping_env = unscaled_curr_nlp_constraint_violation example_env"
    "unscaled_curr_complementarity stopping_env = unscaled_curr_complementarity example_env"
    "curr_x stopping_env = curr_x example_env"
    "curr_y_c stopping_env = curr_y_c example_env"
    "tol stopping_env = tol example_env"
    "curr_f stopping_env = curr_f example_env"
    "CpuTime stopping_env = CpuTime example_env"
    "cpu_time_start stopping_env = cpu_time_start example_env"
    by (simp_all add: stopping_env_def)
  have ne: "IntermediateCallBack stopping_env \<noteq> IntermediateCallBack example_env"
  proof
    assume "IntermediateCallBack stopping_env = IntermediateCallBack example_env"
    then have "IntermediateCallBack stopping_env undefined () = IntermediateCallBack example_env undefined ()"
      by simp
    then show False
      by (simp add: example_defs)
  qed
  have e: "CheckConvergence False example_env initial_world = Inr (CONVERGED, initial_world)"
    by (simp add: CheckConvergence_def check_quantities_unfold relax_primary_def eval_defs example_defs)
  from C9_no_callback [OF h, of initial_world] e have
    "CheckConvergence False stopping_env initial_world = Inr (CONVERGED, initial_world)"
    by simp
  with h ne e show ?thesis by simp
qed

subsection \<open>C10: the first acceptable test of a solve\<close>

text \<open>
  Claim C10: initialisation stores \<open>-1e50\<close> as the current objective value and \<open>-1\<close> as
  its iteration index. On a state with these two values, at an iteration index that is not
  negative, \<^verbatim>\<open>CurrentIsAcceptable\<close> records the objective \<open>f\<close> as current and \<open>-1e50\<close> as
  last, and when \<^verbatim>\<open>acceptable_obj_change_tol\<close> is at most \<open>1e20\<close> and
  \<open>|f| * (1e20 + 1) < 1e50\<close> (a little under \<open>1e30\<close>), the relative change of the
  objective exceeds the tolerance and the acceptable test fails. The arithmetic is exact
  here; the source computes in floating point.
\<close>

theorem C10_first_acceptable_test:
  assumes "curr_obj_val st = - (10 ^ 50)"
    and "last_obj_val_iter st = - 1"
    and "0 \<le> iter_count env"
    and "acceptable_obj_change_tol st \<le> 10 ^ 20"
    and "\<bar>curr_f env\<bar> * (10 ^ 20 + 1) < 10 ^ 50"
  shows "curr_obj_val (snd (InitializeImpl getInteger getNumeric st0)) = - (10 ^ 50)
       \<and> last_obj_val_iter (snd (InitializeImpl getInteger getNumeric st0)) = - 1
       \<and> curr_obj_val (snd (CurrentIsAcceptable env st)) = curr_f env
       \<and> last_obj_val (snd (CurrentIsAcceptable env st)) = - (10 ^ 50)
       \<and> acceptable_obj_change_tol st
            < obj_change (curr_obj_val (snd (CurrentIsAcceptable env st)))
                (last_obj_val (snd (CurrentIsAcceptable env st)))
       \<and> \<not> fst (CurrentIsAcceptable env st)"
proof -
  have ne: "iter_count env \<noteq> last_obj_val_iter st"
    using assms(2,3) by simp
  define f where "f = curr_f env"
  have m: "0 < max 1 \<bar>f\<bar>" by simp
  have "10 ^ 20 * max 1 \<bar>f\<bar> < \<bar>f + 10 ^ 50\<bar>"
  proof (cases "\<bar>f\<bar> \<le> 1")
    case True
    then have "max 1 \<bar>f\<bar> = 1" by simp
    moreover have "(10::real) ^ 20 < 10 ^ 50 - 1" by simp
    moreover have "10 ^ 50 - 1 \<le> \<bar>f + 10 ^ 50\<bar>" using True by linarith
    ultimately show ?thesis by simp
  next
    case False
    then have "max 1 \<bar>f\<bar> = \<bar>f\<bar>" by simp
    moreover have "10 ^ 20 * \<bar>f\<bar> < 10 ^ 50 - \<bar>f\<bar>"
      using assms(5) by (simp add: f_def algebra_simps)
    moreover have "10 ^ 50 - \<bar>f\<bar> \<le> \<bar>f + 10 ^ 50\<bar>" by linarith
    ultimately show ?thesis by simp
  qed
  then have "10 ^ 20 < \<bar>f + 10 ^ 50\<bar> / max 1 \<bar>f\<bar>"
    using m by (simp add: pos_less_divide_eq)
  then have oc: "acceptable_obj_change_tol st < obj_change f (- (10 ^ 50))"
    using assms(4) by (simp add: obj_change_def)
  have c: "curr_obj_val (snd (CurrentIsAcceptable env st)) = f"
    and l: "last_obj_val (snd (CurrentIsAcceptable env st)) = - (10 ^ 50)"
    using ne assms(1) by (simp_all add: f_def)
  have "\<not> fst (CurrentIsAcceptable env st)"
    using oc ne assms(1) by (simp add: CurrentIsAcceptable_fst f_def)
  then show ?thesis
    using oc c l by (simp add: InitializeImpl_def f_def)
qed

theorem C10_witness:
  "curr_obj_val initial_world = - (10 ^ 50) \<and> last_obj_val_iter initial_world = - 1
   \<and> 0 \<le> iter_count example_env \<and> acceptable_obj_change_tol initial_world \<le> 10 ^ 20
   \<and> \<bar>curr_f example_env\<bar> * (10 ^ 20 + 1) < 10 ^ 50
   \<and> snd (InitializeImpl (GetIntegerValue (RegisterOptions []) [])
        (GetNumericValue (RegisterOptions []) []) (running_world\<lparr>last_obj_val := 0\<rparr>)) = initial_world
   \<and> \<not> fst (CurrentIsAcceptable example_env initial_world)"
proof -
  have h1: "curr_obj_val initial_world = - (10 ^ 50)" by (simp add: initial_world_def)
  have h2: "last_obj_val_iter initial_world = - 1" by (simp add: initial_world_def)
  have h3: "0 \<le> iter_count example_env" by (simp add: example_env_def)
  have h4: "acceptable_obj_change_tol initial_world \<le> 10 ^ 20" by (simp add: initial_world_def)
  have h5: "\<bar>curr_f example_env\<bar> * (10 ^ 20 + 1) < 10 ^ 50" by (simp add: example_env_def)
  have i: "snd (InitializeImpl (GetIntegerValue (RegisterOptions []) [])
        (GetNumericValue (RegisterOptions []) []) (running_world\<lparr>last_obj_val := 0\<rparr>)) = initial_world"
    by (simp add: InitializeImpl_def GetIntegerValue_def GetNumericValue_def GetValue_def
        GetOption_def RegisterOptions_def AddLowerBoundedIntegerOption_def
        AddLowerBoundedNumberOption_def initial_world_def running_world_def)
  have n: "\<not> fst (CurrentIsAcceptable example_env initial_world)"
    using C10_first_acceptable_test [OF h1 h2 h3 h4 h5, of "\<lambda>n. 0" "\<lambda>n. 0" initial_world]
    by (elim conjE)
  show ?thesis
    by (intro conjI h1 h2 h3 h4 h5 i n)
qed

end
